theory Spec2Isabelle
  imports Complex_Main
begin

section \<open>JavaScript values used by the User model and the controller\<close>

text \<open>
  A string is a list of code units below 256 (the Latin-1 range, ASCII included); a
  character is read through its code \<open>of_char c\<close>. Strings holding a code unit of 256
  or more are outside what follows. Within the range, white space is what
  \<open>String.prototype.trim\<close>, \<open>parseInt\<close> and the pattern class \<open>\s\<close> of JavaScript take
  it to be (tab to carriage return, space, no-break space), and \<open>toLowerCase\<close> maps
  \<open>A\<close>-\<open>Z\<close> and the accented capitals \<open>0xC0\<close>-\<open>0xDE\<close> (but not the multiplication sign
  \<open>0xD7\<close>) 32 places up. The letter and digit classes are the ASCII ones of the schema's
  patterns.
\<close>

definition isUpper :: "char \<Rightarrow> bool" where
  "isUpper c = (let n = (of_char c :: nat) in 65 \<le> n \<and> n \<le> 90)"

definition isLower :: "char \<Rightarrow> bool" where
  "isLower c = (let n = (of_char c :: nat) in 97 \<le> n \<and> n \<le> 122)"

definition isAlpha :: "char \<Rightarrow> bool" where
  "isAlpha c = (isUpper c \<or> isLower c)"

definition isDigit :: "char \<Rightarrow> bool" where
  "isDigit c = (let n = (of_char c :: nat) in 48 \<le> n \<and> n \<le> 57)"

definition isSpace :: "char \<Rightarrow> bool" where
  "isSpace c = (let n = (of_char c :: nat) in n = 32 \<or> (9 \<le> n \<and> n \<le> 13) \<or> n = 160)"

definition hasLowerCase :: "char \<Rightarrow> bool" where
  "hasLowerCase c =
     (let n = (of_char c :: nat)
      in (65 \<le> n \<and> n \<le> 90) \<or> (192 \<le> n \<and> n \<le> 222 \<and> n \<noteq> 215))"

definition lowerChar :: "char \<Rightarrow> char" where
  "lowerChar c = (if hasLowerCase c then char_of ((of_char c :: nat) + 32) else c)"

definition toLowerCase :: "string \<Rightarrow> string" where
  "toLowerCase s = map lowerChar s"

definition trim :: "string \<Rightarrow> string" where
  "trim s = rev (dropWhile isSpace (rev (dropWhile isSpace s)))"

text \<open>Truthiness of an optional string (\<open>undefined\<close>, \<open>null\<close> and \<open>""\<close> are falsy)
  and of an optional number (\<open>null\<close> and \<open>0\<close> are falsy).\<close>

fun truthyStr :: "string option \<Rightarrow> bool" where
  "truthyStr None = False"
| "truthyStr (Some s) = (s \<noteq> [])"

fun truthyNum :: "int option \<Rightarrow> bool" where
  "truthyNum None = False"
| "truthyNum (Some n) = (n \<noteq> 0)"

text \<open>\<open>Array.prototype.indexOf\<close>: the first index holding the value, \<open>-1\<close> when
  there is none; \<open>includes\<close>; \<open>push\<close>; \<open>splice(index, 1)\<close>.\<close>

fun indexOf :: "'a list \<Rightarrow> 'a \<Rightarrow> int" where
  "indexOf [] x = - 1"
| "indexOf (y # ys) x =
     (if y = x then 0 else (let i = indexOf ys x in if i = - 1 then - 1 else i + 1))"

definition includes_elem :: "'a list \<Rightarrow> 'a \<Rightarrow> bool" where
  "includes_elem xs x = (indexOf xs x \<noteq> - 1)"

definition push :: "'a list \<Rightarrow> 'a \<Rightarrow> 'a list" where
  "push xs x = xs @ [x]"

definition splice1 :: "'a list \<Rightarrow> int \<Rightarrow> 'a list" where
  "splice1 xs i = take (nat i) xs @ drop (nat i + 1) xs"

section \<open>The User document (models/User.js)\<close>

text \<open>
  A document of the \<open>User\<close> schema. \<open>None\<close> stands for \<open>null\<close>/\<open>undefined\<close>.
  \<open>uid\<close> is the document's \<open>_id\<close>. The timestamps are managed by the database
  driver and play no part in what follows.
\<close>

record user =
  uid :: string
  name :: "string option"
  email :: "string option"
  age :: "int option"
  hobbies :: "string list"
  isActive :: bool
  profileScore :: int

text \<open>
  An instance method ends either in \<open>this.save()\<close> or in \<open>Promise.resolve(this)\<close>.
  The model returns the document the method hands on, tagged with which of the two
  happened. \<open>includes\<close> and \<open>indexOf\<close> compare the argument as it is given; \<open>push\<close> on
  the \<open>hobbies\<close> array casts the new element with the schema's setter, which trims it.
\<close>

datatype 'a promise = SaveCall 'a | Resolved 'a

fun docOf :: "'a promise \<Rightarrow> 'a" where
  "docOf (SaveCall d) = d"
| "docOf (Resolved d) = d"

definition addHobby :: "user \<Rightarrow> string \<Rightarrow> user promise" where
  "addHobby this hobby =
     (if \<not> includes_elem (hobbies this) hobby \<and> length (hobbies this) < 10
      then SaveCall (this\<lparr>hobbies := push (hobbies this) (trim hobby)\<rparr>)
      else Resolved this)"

definition removeHobby :: "user \<Rightarrow> string \<Rightarrow> user promise" where
  "removeHobby this hobby =
     (let index = indexOf (hobbies this) hobby
      in if index > - 1
         then SaveCall (this\<lparr>hobbies := splice1 (hobbies this) index\<rparr>)
         else Resolved this)"

text \<open>The score calculation of \<open>updateProfileScore\<close> (the running \<open>score\<close> variable),
  and the method itself, which stores the score and calls \<open>save\<close>.\<close>

definition computeScore :: "user \<Rightarrow> int" where
  "computeScore this =
     (let score = 0;
          score = (if truthyStr (name this) \<and> 2 \<le> length (case name this of Some n \<Rightarrow> n | None \<Rightarrow> [])
                   then score + 20 else score);
          score = (if truthyStr (email this) then score + 30 else score);
          score = (if truthyNum (age this) then score + 20 else score);
          score = score + min (int (length (hobbies this)) * 3) 30
      in score)"

definition updateProfileScore :: "user \<Rightarrow> user promise" where
  "updateProfileScore this = SaveCall (this\<lparr>profileScore := computeScore this\<rparr>)"

text \<open>The scoring rule as the specification words it: 20 for a name of at least two
  characters, 30 for an e-mail that is present, 20 for an age that is not null, and three
  points per hobby up to 30.\<close>

definition specScore :: "user \<Rightarrow> int" where
  "specScore u =
     (case name u of Some n \<Rightarrow> (if 2 \<le> length n then 20 else 0) | None \<Rightarrow> 0)
     + (case email u of Some e \<Rightarrow> 30 | None \<Rightarrow> 0)
     + (case age u of Some a \<Rightarrow> 20 | None \<Rightarrow> 0)
     + min (3 * int (length (hobbies u))) 30"

section \<open>Numbers of the query string (controllers/userController.js)\<close>

text \<open>
  A JavaScript number as the list handler meets it: a double that is an integer,
  negative zero, \<open>NaN\<close> or an infinity. \<open>Num n\<close> always holds an integer that a double
  represents exactly: every arithmetic result goes through \<open>dbl\<close>, which rounds an
  integer to the nearest double (ties to the even significand, 53 bits) and overflows
  to an infinity from \<open>2^1024\<close> on.
\<close>

datatype jsnum = Num int | NegZero | NaN | PosInf | NegInf

fun bitLength :: "nat \<Rightarrow> nat" where
  "bitLength n = (if n = 0 then 0 else Suc (bitLength (n div 2)))"

declare bitLength.simps [simp del]

definition roundToDouble :: "nat \<Rightarrow> nat option" where
  "roundToDouble n =
     (if n < 2 ^ 53 then Some n
      else (let e = bitLength n - 53;
                q = n div 2 ^ e;
                r = n mod 2 ^ e;
                half = 2 ^ (e - 1);
                q' = (if half < r \<or> (r = half \<and> odd q) then q + 1 else q);
                v = q' * 2 ^ e
            in if 2 ^ 1024 \<le> v then None else Some v))"

definition dbl :: "int \<Rightarrow> jsnum" where
  "dbl i =
     (case roundToDouble (nat \<bar>i\<bar>) of
        None \<Rightarrow> (if i < 0 then NegInf else PosInf)
      | Some v \<Rightarrow> Num (if i < 0 then - int v else int v))"

text \<open>\<open>parseInt(string)\<close> with no radix: leading white space is skipped, a sign is
  read, a \<open>0x\<close> prefix switches to radix 16, and the longest run of digits is the
  value, as a double; no digit at all gives \<open>NaN\<close>. (Beyond 20 significant decimal
  digits the language lets an engine replace further digits by zeros; the value is
  taken as written.)\<close>

definition digitVal :: "char \<Rightarrow> nat" where
  "digitVal c =
     (let n = (of_char c :: nat)
      in if isDigit c then n - 48
         else if isLower c then n - 97 + 10
         else if isUpper c then n - 65 + 10
         else 36)"

definition isRadixDigit :: "nat \<Rightarrow> char \<Rightarrow> bool" where
  "isRadixDigit R c = (digitVal c < R)"

definition parseInt :: "string \<Rightarrow> jsnum" where
  "parseInt inputString =
     (let S = dropWhile isSpace inputString;
          sign = (if take 1 S = ''-'' then - 1 else (1::int));
          S = (if take 1 S = ''+'' \<or> take 1 S = ''-'' then drop 1 S else S);
          R = (if take 2 S = ''0x'' \<or> take 2 S = ''0X'' then 16 else (10::nat));
          S = (if R = 16 then drop 2 S else S);
          Z = takeWhile (isRadixDigit R) S
      in if Z = [] then NaN
         else (let mathInt = foldl (\<lambda>acc c. acc * R + digitVal c) 0 Z
               in if mathInt = 0 then (if sign = - 1 then NegZero else Num 0)
                  else dbl (sign * int mathInt)))"

fun isNaN :: "jsnum \<Rightarrow> bool" where
  "isNaN NaN = True"
| "isNaN _ = False"

fun isInf :: "jsnum \<Rightarrow> bool" where
  "isInf PosInf = True"
| "isInf NegInf = True"
| "isInf _ = False"

fun isZero :: "jsnum \<Rightarrow> bool" where
  "isZero (Num n) = (n = 0)"
| "isZero NegZero = True"
| "isZero _ = False"

fun negative :: "jsnum \<Rightarrow> bool" where
  "negative (Num n) = (n < 0)"
| "negative NegZero = True"
| "negative NegInf = True"
| "negative _ = False"

fun intOf :: "jsnum \<Rightarrow> int" where
  "intOf (Num n) = n"
| "intOf _ = 0"

text \<open>
  \<open>x - 1\<close>, \<open>x * y\<close> and \<open>x < y\<close> on these numbers, and \<open>Math.ceil(n / y)\<close> for a count
  \<open>n\<close> of documents. A count is below \<open>2^53\<close>; the double quotient of such a count by
  an integer then lies strictly between the integers around the exact quotient (or is
  the exact quotient), so its ceiling is the exact ceiling, which \<open>ceilDiv\<close> computes.
\<close>

fun js_pred :: "jsnum \<Rightarrow> jsnum" where
  "js_pred (Num n) = dbl (n - 1)"
| "js_pred NegZero = Num (- 1)"
| "js_pred x = x"

definition js_mul :: "jsnum \<Rightarrow> jsnum \<Rightarrow> jsnum" where
  "js_mul a b =
     (if isNaN a \<or> isNaN b then NaN
      else if (isInf a \<and> isZero b) \<or> (isZero a \<and> isInf b) then NaN
      else if isInf a \<or> isInf b then (if negative a \<noteq> negative b then NegInf else PosInf)
      else if isZero a \<or> isZero b then (if negative a \<noteq> negative b then NegZero else Num 0)
      else dbl (intOf a * intOf b))"

fun js_less :: "jsnum \<Rightarrow> jsnum \<Rightarrow> bool" where
  "js_less NaN _ = False"
| "js_less _ NaN = False"
| "js_less PosInf _ = False"
| "js_less _ NegInf = False"
| "js_less NegInf _ = True"
| "js_less _ PosInf = True"
| "js_less a b = (intOf a < intOf b)"

fun ceilDiv :: "nat \<Rightarrow> jsnum \<Rightarrow> jsnum" where
  "ceilDiv n NaN = NaN"
| "ceilDiv n PosInf = Num 0"
| "ceilDiv n NegInf = NegZero"
| "ceilDiv n NegZero = (if n = 0 then NaN else NegInf)"
| "ceilDiv n (Num s) =
     (if s = 0 then (if n = 0 then NaN else PosInf)
      else (let q = - ((- int n) div s) in if q = 0 \<and> s < 0 then NegZero else Num q))"

section \<open>Responses\<close>

text \<open>What a handler sends: \<open>res.status(status).json({success, message, ...})\<close>; the
  remaining fields of the JSON body are the payload.\<close>

record 'a response =
  status :: nat
  success :: bool
  message :: string
  payload :: "'a option"

definition reply :: "nat \<Rightarrow> bool \<Rightarrow> string \<Rightarrow> 'a option \<Rightarrow> 'a response" where
  "reply st ok msg p = \<lparr>status = st, success = ok, message = msg, payload = p\<rparr>"

section \<open>GET /api/users (getAllUsers)\<close>

text \<open>The query string: every parameter is a string or absent.\<close>

record listParams =
  p_page :: "string option"
  p_limit :: "string option"
  p_sortBy :: "string option"
  p_order :: "string option"
  p_name :: "string option"
  p_email :: "string option"
  p_minAge :: "string option"
  p_maxAge :: "string option"
  p_hobby :: "string option"
  p_isActive :: "string option"

text \<open>The filter object handed to the collection. \<open>Regex pattern options\<close> is
  \<open>{ $regex: pattern, $options: options }\<close>.\<close>

datatype regexFilter = Regex string string

record ageFilter =
  gte :: "jsnum option"
  lte :: "jsnum option"

record userFilter =
  f_name :: "regexFilter option"
  f_email :: "regexFilter option"
  f_age :: "ageFilter option"
  f_hobbies :: "string option"
  f_isActive :: "bool option"

definition buildFilter :: "listParams \<Rightarrow> userFilter" where
  "buildFilter req =
     \<lparr>f_name = (if truthyStr (p_name req)
                 then map_option (\<lambda>n. Regex n ''i'') (p_name req) else None),
      f_email = (if truthyStr (p_email req)
                 then map_option (\<lambda>e. Regex (''^'' @ e @ ''$'') ''i'') (p_email req) else None),
      f_age = (if truthyStr (p_minAge req) \<or> truthyStr (p_maxAge req)
               then Some \<lparr>gte = (if truthyStr (p_minAge req)
                                  then map_option parseInt (p_minAge req) else None),
                          lte = (if truthyStr (p_maxAge req)
                                  then map_option parseInt (p_maxAge req) else None)\<rparr>
               else None),
      f_hobbies = (if truthyStr (p_hobby req) then p_hobby req else None),
      f_isActive = map_option (\<lambda>s. s = ''true'') (p_isActive req)\<rparr>"

definition filterApplied :: "userFilter \<Rightarrow> bool" where
  "filterApplied q = (f_name q \<noteq> None \<or> f_email q \<noteq> None \<or> f_age q \<noteq> None
                        \<or> f_hobbies q \<noteq> None \<or> f_isActive q \<noteq> None)"

record pagination =
  currentPage :: jsnum
  pageSize :: jsnum
  totalUsers :: nat
  totalPages :: jsnum
  hasNextPage :: bool
  hasPreviousPage :: bool

record 'u listData =
  users :: "'u list"
  pageInfo :: pagination
  applied :: bool
  details :: userFilter

text \<open>
  The collection is reached through the database driver:
  \<open>Promise.all([User.find(query).sort(sortOptions).skip(skip).limit(pageSize), User.countDocuments(query)])\<close>.
  The pair of calls is a parameter \<open>store\<close> of the handler: it receives the filter, the
  sort field and direction, \<open>skip\<close> and \<open>pageSize\<close>, and either throws (\<open>Inl\<close>, caught
  by the handler's \<open>catch\<close>) or yields the page and the total count.
\<close>

type_synonym 'u listStore =
  "userFilter \<Rightarrow> string \<times> int \<Rightarrow> jsnum \<Rightarrow> jsnum \<Rightarrow> string + ('u list \<times> nat)"

definition paginate :: "jsnum \<Rightarrow> jsnum \<Rightarrow> nat \<Rightarrow> pagination" where
  "paginate pageNumber pageSz count =
     (let pages = ceilDiv count pageSz
      in \<lparr>currentPage = pageNumber, pageSize = pageSz, totalUsers = count,
          totalPages = pages,
          hasNextPage = js_less pageNumber pages,
          hasPreviousPage = js_less (Num 1) pageNumber\<rparr>)"

text \<open>The destructuring defaults: \<open>page = 1\<close>, \<open>limit = 10\<close>, \<open>sortBy = 'createdAt'\<close>,
  \<open>order = 'desc'\<close> (a default number reaches \<open>parseInt\<close> as its decimal string).\<close>

definition pageParam :: "listParams \<Rightarrow> string" where
  "pageParam req = (case p_page req of None \<Rightarrow> ''1'' | Some s \<Rightarrow> s)"

definition limitParam :: "listParams \<Rightarrow> string" where
  "limitParam req = (case p_limit req of None \<Rightarrow> ''10'' | Some s \<Rightarrow> s)"

definition sortOptions :: "listParams \<Rightarrow> string \<times> int" where
  "sortOptions req =
     (let sortBy = (case p_sortBy req of None \<Rightarrow> ''createdAt'' | Some s \<Rightarrow> s);
          order = (case p_order req of None \<Rightarrow> ''desc'' | Some s \<Rightarrow> s);
          sortOrder = (if order = ''desc'' then - 1 else 1)
      in (sortBy, sortOrder))"

definition getAllUsers :: "'u listStore \<Rightarrow> listParams \<Rightarrow> 'u listData response" where
  "getAllUsers store req =
     (let query = buildFilter req;
          pageNumber = parseInt (pageParam req);
          pageSz = parseInt (limitParam req);
          skip = js_mul (js_pred pageNumber) pageSz
      in case store query (sortOptions req) skip pageSz of
           Inl err \<Rightarrow> reply 500 False ''Failed to retrieve users'' None
         | Inr (found, count) \<Rightarrow>
             reply 200 True ''Users retrieved successfully''
               (Some \<lparr>users = found, pageInfo = paginate pageNumber pageSz count,
                      applied = filterApplied query, details = query\<rparr>))"

section \<open>GET /api/users/search (searchUsers)\<close>

record searchParams =
  s_q :: "string option"
  s_field :: "string option"

text \<open>The query object of the search: one field matched against the regular expression,
  or \<open>$or\<close> over the three.\<close>

datatype searchQuery =
    NameRx regexFilter
  | EmailRx regexFilter
  | HobbiesRx regexFilter
  | OrQuery "searchQuery list"

text \<open>
  The regular-expression engine belongs to the database. It is the parameter \<open>rx\<close>:
  \<open>rx r\<close> is \<open>None\<close> when the database refuses the expression (the query then throws)
  and otherwise the test "this string matches \<open>r\<close>". A regular expression on an array
  field matches when some element matches.
\<close>

type_synonym regexEngine = "regexFilter \<Rightarrow> (string \<Rightarrow> bool) option"

fun matchesQuery :: "regexEngine \<Rightarrow> searchQuery \<Rightarrow> user \<Rightarrow> bool option" where
  "matchesQuery rx (NameRx r) u =
     map_option (\<lambda>m. case name u of Some n \<Rightarrow> m n | None \<Rightarrow> False) (rx r)"
| "matchesQuery rx (EmailRx r) u =
     map_option (\<lambda>m. case email u of Some e \<Rightarrow> m e | None \<Rightarrow> False) (rx r)"
| "matchesQuery rx (HobbiesRx r) u =
     map_option (\<lambda>m. list_ex m (hobbies u)) (rx r)"
| "matchesQuery rx (OrQuery qs) u =
     (if list_all (\<lambda>q. matchesQuery rx q u \<noteq> None) qs
      then Some (list_ex (\<lambda>q. matchesQuery rx q u = Some True) qs)
      else None)"

text \<open>\<open>User.find(query).limit(n)\<close> on the collection \<open>db\<close>, in stored order: it throws
  when an expression of the query is refused.\<close>

fun queryRegexes :: "searchQuery \<Rightarrow> regexFilter list" where
  "queryRegexes (NameRx r) = [r]"
| "queryRegexes (EmailRx r) = [r]"
| "queryRegexes (HobbiesRx r) = [r]"
| "queryRegexes (OrQuery qs) = concat (map queryRegexes qs)"

definition findLimit :: "regexEngine \<Rightarrow> user list \<Rightarrow> searchQuery \<Rightarrow> nat \<Rightarrow> string + user list" where
  "findLimit rx db query n =
     (if list_all (\<lambda>r. rx r \<noteq> None) (queryRegexes query)
      then Inr (take n (filter (\<lambda>u. matchesQuery rx query u = Some True) db))
      else Inl ''Regular expression is invalid'')"

text \<open>The calls a handler makes on the collection are recorded beside its response. The
  success message is kept without the count, query and field the source interpolates
  into it; they are fields of the payload.\<close>

datatype dbCall = Find searchQuery nat

record searchData =
  results :: "user list"
  query :: string
  field :: string

definition searchUsers ::
  "regexEngine \<Rightarrow> user list \<Rightarrow> searchParams \<Rightarrow> searchData response \<times> dbCall list" where
  "searchUsers rx db req =
     (let fld = (case s_field req of None \<Rightarrow> ''all'' | Some f \<Rightarrow> f)
      in if \<not> truthyStr (s_q req)
         then (reply 400 False ''Search query (q) is required'' None, [])
         else (let q = (case s_q req of Some s \<Rightarrow> s | None \<Rightarrow> []);
                   searchRegex = Regex q ''i'';
                   built =
                     (if fld = ''name'' then Some (NameRx searchRegex)
                      else if fld = ''email'' then Some (EmailRx searchRegex)
                      else if fld = ''hobby'' then Some (HobbiesRx searchRegex)
                      else if fld = ''all''
                        then Some (OrQuery [NameRx searchRegex, EmailRx searchRegex,
                                            HobbiesRx searchRegex])
                      else None)
               in case built of
                    None \<Rightarrow> (reply 400 False ''Invalid search field'' None, [])
                  | Some qry \<Rightarrow>
                      (case findLimit rx db qry 50 of
                         Inl err \<Rightarrow> (reply 500 False ''Search failed'' None, [Find qry 50])
                       | Inr found \<Rightarrow>
                           (reply 200 True ''Found user(s)''
                              (Some \<lparr>results = found, query = q, field = fld\<rparr>),
                            [Find qry 50]))))"

text \<open>Case-insensitive substring containment, the relation the specification names.\<close>

fun startsWithCI :: "string \<Rightarrow> string \<Rightarrow> bool" where
  "startsWithCI text [] = True"
| "startsWithCI [] (p # ps) = False"
| "startsWithCI (c # cs) (p # ps) = (lowerChar c = lowerChar p \<and> startsWithCI cs ps)"

fun containsCI :: "string \<Rightarrow> string \<Rightarrow> bool" where
  "containsCI [] pat = startsWithCI [] pat"
| "containsCI (c # cs) pat = (startsWithCI (c # cs) pat \<or> containsCI cs pat)"

section \<open>A regular-expression engine to run the search with\<close>

text \<open>
  To run \<open>searchUsers\<close> on concrete input an engine is needed. \<open>dotRegexI\<close> is one for
  the common core of the database's pattern language (PCRE): ordinary characters; the
  escapes \<open>\d \w \s \h \v\<close> and their negations \<open>\D \W \S \H \V\<close>, \<open>\N\<close>,
  \<open>\n \t \r \f \a \e\<close>, and a backslash before a character that is not a letter or
  digit; \<open>.\<close> (any character but a line feed); the assertions \<open>^\<close>, \<open>\A\<close>, \<open>\G\<close> (start
  of the string), \<open>$\<close>, \<open>\Z\<close> (end of the string, or before a final line feed), \<open>\z\<close>
  (end of the string), \<open>\b\<close> and \<open>\B\<close> (word boundary or not), and \<open>\K\<close>, which has no
  effect on whether a string matches; character classes \<open>[...]\<close> with ranges and
  negation; the quantifiers \<open>* + ?\<close> and \<open>{n} {n,} {n,m}\<close> (a following \<open>?\<close> makes them
  lazy, which does not change whether a string matches); alternation \<open>|\<close> and groups
  \<open>(...)\<close>, \<open>(?:...)\<close>. The options are \<open>i\<close> (letter case ignored) or none. A pattern is
  matched anywhere in the string. The engine refuses the patterns the database rejects
  as malformed. It also refuses what lies outside this syntax, which the database may
  accept: look-around, back references, possessive quantifiers and atomic groups, named
  groups, comments and option settings inside the pattern, POSIX and Unicode classes,
  numeric and control escapes, \<open>\Q...\E\<close>, \<open>\R\<close>, \<open>\X\<close>, \<open>\C\<close>, and other options.
\<close>

datatype atom = Lit char | AnyButNewline | CharSet bool "(char \<times> char) list"

datatype assertion = AtStart | AtEnd | AtEndOrNewline | WordBoundary | NotWordBoundary

datatype rexp =
    Zero | One | Atom atom | Assert assertion
  | Alt rexp rexp | Seq rexp rexp | Star rexp

definition hasUpperCase :: "char \<Rightarrow> bool" where
  "hasUpperCase c =
     (let n = (of_char c :: nat)
      in (97 \<le> n \<and> n \<le> 122) \<or> (224 \<le> n \<and> n \<le> 254 \<and> n \<noteq> 247))"

definition upperChar :: "char \<Rightarrow> char" where
  "upperChar c = (if hasUpperCase c then char_of ((of_char c :: nat) - 32) else c)"

definition inRanges :: "(char \<times> char) list \<Rightarrow> char \<Rightarrow> bool" where
  "inRanges rs c =
     list_ex (\<lambda>r. (of_char (fst r) :: nat) \<le> of_char c \<and> (of_char c :: nat) \<le> of_char (snd r)) rs"

fun atomMatches :: "bool \<Rightarrow> atom \<Rightarrow> char \<Rightarrow> bool" where
  "atomMatches ci (Lit a) c = (if ci then lowerChar c = lowerChar a else c = a)"
| "atomMatches ci AnyButNewline c = (c \<noteq> CHR 0x0A)"
| "atomMatches ci (CharSet neg rs) c =
     (neg \<noteq> (inRanges rs c \<or> (ci \<and> (inRanges rs (lowerChar c) \<or> inRanges rs (upperChar c)))))"

definition horizontalRanges :: "(char \<times> char) list" where
  "horizontalRanges = [(CHR 0x09, CHR 0x09), (CHR '' '', CHR '' ''), (CHR 0xA0, CHR 0xA0)]"

definition verticalRanges :: "(char \<times> char) list" where
  "verticalRanges = [(CHR 0x0A, CHR 0x0D), (CHR 0x85, CHR 0x85)]"

definition digitRanges :: "(char \<times> char) list" where
  "digitRanges = [(CHR ''0'', CHR ''9'')]"

definition wordRanges :: "(char \<times> char) list" where
  "wordRanges = [(CHR ''a'', CHR ''z''), (CHR ''A'', CHR ''Z''), (CHR ''0'', CHR ''9''),
                 (CHR ''_'', CHR ''_'')]"

definition spaceRanges :: "(char \<times> char) list" where
  "spaceRanges = [(CHR 0x09, CHR 0x0D), (CHR '' '', CHR '' '')]"

text \<open>An assertion at a position of the string: \<open>prev\<close> is the character before the
  position (none at the start) and \<open>rest\<close> is what follows it.\<close>

fun wordBefore :: "char option \<Rightarrow> bool" where
  "wordBefore None = False"
| "wordBefore (Some c) = inRanges wordRanges c"

fun wordAfter :: "string \<Rightarrow> bool" where
  "wordAfter [] = False"
| "wordAfter (c # cs) = inRanges wordRanges c"

fun holds :: "assertion \<Rightarrow> char option \<Rightarrow> string \<Rightarrow> bool" where
  "holds AtStart prev rest = (prev = None)"
| "holds AtEnd prev rest = (rest = [])"
| "holds AtEndOrNewline prev rest = (rest = [] \<or> rest = [CHR 0x0A])"
| "holds WordBoundary prev rest = (wordBefore prev \<noteq> wordAfter rest)"
| "holds NotWordBoundary prev rest = (wordBefore prev = wordAfter rest)"

text \<open>Matching by derivatives. \<open>nullable prev rest r\<close>: \<open>r\<close> matches the empty string at
  the position between \<open>prev\<close> and \<open>rest\<close>. \<open>deriv ci prev c cs r\<close> is what is left of
  \<open>r\<close> after the character \<open>c\<close> read at the position between \<open>prev\<close> and \<open>c # cs\<close>.\<close>

fun nullable :: "char option \<Rightarrow> string \<Rightarrow> rexp \<Rightarrow> bool" where
  "nullable prev rest Zero = False"
| "nullable prev rest One = True"
| "nullable prev rest (Atom a) = False"
| "nullable prev rest (Assert a) = holds a prev rest"
| "nullable prev rest (Alt r s) = (nullable prev rest r \<or> nullable prev rest s)"
| "nullable prev rest (Seq r s) = (nullable prev rest r \<and> nullable prev rest s)"
| "nullable prev rest (Star r) = True"

fun deriv :: "bool \<Rightarrow> char option \<Rightarrow> char \<Rightarrow> string \<Rightarrow> rexp \<Rightarrow> rexp" where
  "deriv ci prev c cs Zero = Zero"
| "deriv ci prev c cs One = Zero"
| "deriv ci prev c cs (Atom a) = (if atomMatches ci a c then One else Zero)"
| "deriv ci prev c cs (Assert a) = Zero"
| "deriv ci prev c cs (Alt r s) = Alt (deriv ci prev c cs r) (deriv ci prev c cs s)"
| "deriv ci prev c cs (Seq r s) =
     (if nullable prev (c # cs) r
      then Alt (Seq (deriv ci prev c cs r) s) (deriv ci prev c cs s)
      else Seq (deriv ci prev c cs r) s)"
| "deriv ci prev c cs (Star r) = Seq (deriv ci prev c cs r) (Star r)"

fun matchesAll :: "bool \<Rightarrow> rexp \<Rightarrow> char option \<Rightarrow> string \<Rightarrow> bool" where
  "matchesAll ci r prev [] = nullable prev [] r"
| "matchesAll ci r prev (c # cs) = matchesAll ci (deriv ci prev c cs r) (Some c) cs"

definition anyChar :: rexp where
  "anyChar = Atom (CharSet True [])"

definition searchIn :: "bool \<Rightarrow> rexp \<Rightarrow> string \<Rightarrow> bool" where
  "searchIn ci r s = matchesAll ci (Seq (Star anyChar) (Seq r (Star anyChar))) None s"

text \<open>
  Reading a pattern, one character at a time. The stack holds, for the pattern and each
  open group, the alternatives finished so far and the items of the current one (both
  latest first). \<open>rep\<close> says what a quantifier would apply to: the last item
  (\<open>CanRepeat\<close>), a quantifier just read (\<open>Quantified\<close>, only a lazy \<open>?\<close> may follow) or
  nothing.
\<close>

datatype repState = CanRepeat | Quantified | NoRepeat

datatype setState = SetState bool "(char \<times> char) list" "char option" bool nat bool bool

text \<open>
  Inside a class a \<open>[\<close> followed by \<open>:\<close>, \<open>.\<close> or \<open>=\<close> may open a POSIX name (\<open>[:alpha:]\<close>,
  \<open>[.x.]\<close>, \<open>[=x=]\<close>): it does when the same character followed by \<open>]\<close> comes before
  the next \<open>]\<close> and before the next \<open>[\<close> followed by that character, a backslash hiding a
  \<open>]\<close> or a backslash that follows it. The engine refuses every class with such a name
  (the database refuses it for \<open>.\<close> and \<open>=\<close>, and right after the opening bracket of a
  class). \<open>scan\<close> is the state of the search for the closing mark, one search for each
  of the three characters.
\<close>

datatype scan = Idle | Fresh | AfterBackslash | AfterBracket | AfterMark | Found

definition freshStep :: "char \<Rightarrow> char \<Rightarrow> scan" where
  "freshStep t x =
     (if x = CHR 0x5C then AfterBackslash
      else if x = CHR '']'' then Idle
      else if x = CHR ''['' then AfterBracket
      else if x = t then AfterMark
      else Fresh)"

fun scanStep :: "char \<Rightarrow> scan \<Rightarrow> char \<Rightarrow> scan" where
  "scanStep t Idle x = Idle"
| "scanStep t Found x = Found"
| "scanStep t Fresh x = freshStep t x"
| "scanStep t AfterBackslash x =
     (if x = CHR '']'' \<or> x = CHR 0x5C then Fresh else freshStep t x)"
| "scanStep t AfterBracket x = (if x = t then Idle else freshStep t x)"
| "scanStep t AfterMark x = (if x = CHR '']'' then Found else freshStep t x)"

type_synonym scans = "scan \<times> scan \<times> scan"

definition scanOne :: "bool \<Rightarrow> char \<Rightarrow> scan \<Rightarrow> char \<Rightarrow> scan" where
  "scanOne lb t s x = (if lb \<and> x = t then Fresh else scanStep t s x)"

definition scanAll :: "bool \<Rightarrow> char \<Rightarrow> scans \<Rightarrow> scans" where
  "scanAll lb x sc =
     (case sc of (a, b, c) \<Rightarrow>
        (scanOne lb (CHR '':'') a x, scanOne lb (CHR ''.'') b x, scanOne lb (CHR ''='') c x))"

definition nameFound :: "scans \<Rightarrow> bool" where
  "nameFound sc = (case sc of (a, b, c) \<Rightarrow> a = Found \<or> b = Found \<or> c = Found)"

datatype pmode =
    Normal | Escaped | Opened | OpenedQ
  | InSet setState scans
  | InBrace string

type_synonym frame = "rexp list \<times> rexp list"

datatype pstate = PState "frame list" repState pmode

definition seqOf :: "rexp list \<Rightarrow> rexp" where
  "seqOf items = foldl (\<lambda>acc r. Seq r acc) One items"

definition altOf :: "frame \<Rightarrow> rexp" where
  "altOf f = foldl (\<lambda>acc r. Alt r acc) (seqOf (snd f)) (fst f)"

fun power :: "rexp \<Rightarrow> nat \<Rightarrow> rexp" where
  "power r 0 = One"
| "power r (Suc n) = Seq r (power r n)"

definition addItem :: "rexp \<Rightarrow> repState \<Rightarrow> frame list \<Rightarrow> pstate option" where
  "addItem r rep st =
     (case st of
        [] \<Rightarrow> None
      | (alts, items) # rest \<Rightarrow> Some (PState ((alts, r # items) # rest) rep Normal))"

definition quantify :: "(rexp \<Rightarrow> rexp) \<Rightarrow> repState \<Rightarrow> frame list \<Rightarrow> pstate option" where
  "quantify q rep st =
     (case (rep, st) of
        (CanRepeat, (alts, r # items) # rest) \<Rightarrow>
          Some (PState ((alts, q r # items) # rest) Quantified Normal)
      | _ \<Rightarrow> None)"

text \<open>The character an escape stands for, when it stands for one: control escapes, and
  any character that is not an ASCII letter or digit. The class an escape stands for,
  and the assertion.\<close>

definition escapedChar :: "char \<Rightarrow> char option" where
  "escapedChar c =
     (if c = CHR ''n'' then Some (CHR 0x0A)
      else if c = CHR ''t'' then Some (CHR 0x09)
      else if c = CHR ''r'' then Some (CHR 0x0D)
      else if c = CHR ''f'' then Some (CHR 0x0C)
      else if c = CHR ''a'' then Some (CHR 0x07)
      else if c = CHR ''e'' then Some (CHR 0x1B)
      else if isAlpha c \<or> isDigit c then None
      else Some c)"

definition escapedSet :: "char \<Rightarrow> (char \<times> char) list option" where
  "escapedSet c =
     (if c = CHR ''d'' then Some digitRanges
      else if c = CHR ''w'' then Some wordRanges
      else if c = CHR ''s'' then Some spaceRanges
      else if c = CHR ''h'' then Some horizontalRanges
      else if c = CHR ''v'' then Some verticalRanges
      else None)"

definition escapedAssertion :: "char \<Rightarrow> rexp option" where
  "escapedAssertion c =
     (if c = CHR ''b'' then Some (Assert WordBoundary)
      else if c = CHR ''B'' then Some (Assert NotWordBoundary)
      else if c = CHR ''A'' \<or> c = CHR ''G'' then Some (Assert AtStart)
      else if c = CHR ''Z'' then Some (Assert AtEndOrNewline)
      else if c = CHR ''z'' then Some (Assert AtEnd)
      else if c = CHR ''K'' then Some One
      else None)"

definition stepEscaped :: "frame list \<Rightarrow> char \<Rightarrow> pstate option" where
  "stepEscaped st c =
     (case escapedAssertion c of
        Some r \<Rightarrow> addItem r NoRepeat st
      | None \<Rightarrow>
          (if c = CHR ''N'' then addItem (Atom AnyButNewline) CanRepeat st
           else (case escapedSet c of
                   Some rs \<Rightarrow> addItem (Atom (CharSet False rs)) CanRepeat st
                 | None \<Rightarrow>
                     (case escapedSet (lowerChar c) of
                        Some rs \<Rightarrow>
                          (if isUpper c then addItem (Atom (CharSet True rs)) CanRepeat st
                           else None)
                      | None \<Rightarrow>
                          (case escapedChar c of
                             Some x \<Rightarrow> addItem (Atom (Lit x)) CanRepeat st
                           | None \<Rightarrow> None)))))"

text \<open>Inside a class: the negation flag, the ranges so far, a single character that may
  yet begin a range, whether a \<open>-\<close> follows it, the position (0 after \<open>[\<close>, 1 after the
  \<open>^\<close>, 2 from the first member on, 3 after an escape such as \<open>\d\<close>, 4 after a \<open>-\<close>
  behind such an escape, which only the closing bracket may follow), whether a backslash
  was just read, and whether the character just read was a \<open>[\<close> (the opening bracket,
  or a member of the class that is not escaped).\<close>

definition flushPending :: "(char \<times> char) list \<Rightarrow> char option \<Rightarrow> bool \<Rightarrow> (char \<times> char) list" where
  "flushPending rs pending dash =
     (case pending of None \<Rightarrow> rs | Some a \<Rightarrow> (a, a) # rs)
     @ (if dash then [(CHR ''-'', CHR ''-'')] else [])"

definition setMember :: "setState \<Rightarrow> char \<Rightarrow> setState option" where
  "setMember ss c =
     (case ss of SetState neg rs pending dash pos esc lb \<Rightarrow>
        (if dash
         then (case pending of
                 Some a \<Rightarrow>
                   (if (of_char a :: nat) \<le> of_char c
                    then Some (SetState neg ((a, c) # rs) None False 2 False
                                 (c = CHR ''['' \<and> \<not> esc))
                    else None)
               | None \<Rightarrow> None)
         else Some (SetState neg (flushPending rs pending False) (Some c) False 2 False
                      (c = CHR ''['' \<and> \<not> esc))))"

definition stepSet :: "frame list \<Rightarrow> setState \<Rightarrow> scans \<Rightarrow> char \<Rightarrow> pstate option" where
  "stepSet st ss sc c =
     (case ss of SetState neg rs pending dash pos esc lb \<Rightarrow>
        (if esc
         then (case escapedSet c of
                 Some extra \<Rightarrow>
                   (if dash then None
                    else Some (PState st NoRepeat
                           (InSet (SetState neg (extra @ flushPending rs pending False) None False 3
                                     False False) sc)))
               | None \<Rightarrow>
                   (if c = CHR ''b'' then map_option (\<lambda>x. PState st NoRepeat (InSet x sc))
                                             (setMember ss (CHR 0x08))
                    else (case escapedChar c of
                            Some x \<Rightarrow> map_option (\<lambda>y. PState st NoRepeat (InSet y sc)) (setMember ss x)
                          | None \<Rightarrow> None)))
         else if pos = 4
           then (if c = CHR '']''
                 then addItem (Atom (CharSet neg (flushPending rs pending True))) CanRepeat st
                 else None)
         else if pos = 3 \<and> c = CHR ''-''
           then Some (PState st NoRepeat (InSet (SetState neg rs pending False 4 False False) sc))
         else if c = CHR 0x5C
           then Some (PState st NoRepeat (InSet (SetState neg rs pending dash pos True False) sc))
         else if c = CHR ''^'' \<and> pos = 0
           then Some (PState st NoRepeat (InSet (SetState True rs pending dash 1 False False) sc))
         else if c = CHR '']'' \<and> 2 \<le> pos
           then addItem (Atom (CharSet neg (flushPending rs pending dash))) CanRepeat st
         else if c = CHR ''-'' \<and> pending \<noteq> None \<and> \<not> dash
           then Some (PState st NoRepeat (InSet (SetState neg rs pending True 2 False False) sc))
         else map_option (\<lambda>x. PState st NoRepeat (InSet x sc)) (setMember ss c)))"

text \<open>A counted quantifier \<open>{n}\<close>, \<open>{n,}\<close> or \<open>{n,m}\<close>, read from what stands between
  the braces; it needs an item to repeat, as the other quantifiers do. Anything else
  between braces is ordinary text.\<close>

definition decimal :: "string \<Rightarrow> nat" where
  "decimal ds = foldl (\<lambda>acc c. acc * 10 + digitVal c) 0 ds"

definition readCount :: "string \<Rightarrow> (nat \<times> nat option) option" where
  "readCount acc =
     (let lo = takeWhile isDigit acc; rest = dropWhile isDigit acc
      in if lo = [] then None
         else if rest = [] then Some (decimal lo, Some (decimal lo))
         else if rest = '','' then Some (decimal lo, None)
         else if take 1 rest = '','' \<and> drop 1 rest \<noteq> [] \<and> list_all isDigit (drop 1 rest)
           then Some (decimal lo, Some (decimal (drop 1 rest)))
         else None)"

definition counted :: "nat \<Rightarrow> nat option \<Rightarrow> rexp \<Rightarrow> rexp" where
  "counted lo hi r =
     (case hi of
        None \<Rightarrow> Seq (power r lo) (Star r)
      | Some h \<Rightarrow> Seq (power r lo) (power (Alt r One) (h - lo)))"

fun addLiterals :: "string \<Rightarrow> frame list \<Rightarrow> frame list" where
  "addLiterals [] st = st"
| "addLiterals (c # cs) st =
     (case st of
        [] \<Rightarrow> []
      | (alts, items) # rest \<Rightarrow> addLiterals cs ((alts, Atom (Lit c) # items) # rest))"

definition stepNormal :: "frame list \<Rightarrow> repState \<Rightarrow> char \<Rightarrow> pstate option" where
  "stepNormal st rep c =
     (if c = CHR 0x5C then Some (PState st rep Escaped)
      else if c = CHR ''('' then Some (PState (([], []) # st) NoRepeat Opened)
      else if c = CHR '')''
        then (case st of
                f # (alts, items) # rest \<Rightarrow>
                  Some (PState ((alts, altOf f # items) # rest) CanRepeat Normal)
              | _ \<Rightarrow> None)
      else if c = CHR ''|''
        then (case st of
                (alts, items) # rest \<Rightarrow> Some (PState ((seqOf items # alts, []) # rest) NoRepeat Normal)
              | [] \<Rightarrow> None)
      else if c = CHR ''*'' then quantify Star rep st
      else if c = CHR ''+''
        then quantify (\<lambda>r. Seq r (Star r)) rep st
      else if c = CHR ''?''
        then (if rep = Quantified then Some (PState st NoRepeat Normal)
              else quantify (\<lambda>r. Alt r One) rep st)
      else if c = CHR ''{'' then Some (PState st rep (InBrace []))
      else if c = CHR ''[''
        then Some (PState st NoRepeat
                     (InSet (SetState False [] None False 0 False True) (Idle, Idle, Idle)))
      else if c = CHR ''.'' then addItem (Atom AnyButNewline) CanRepeat st
      else if c = CHR ''^'' then addItem (Assert AtStart) NoRepeat st
      else if c = CHR ''$'' then addItem (Assert AtEndOrNewline) NoRepeat st
      else addItem (Atom (Lit c)) CanRepeat st)"

definition stepBrace :: "frame list \<Rightarrow> repState \<Rightarrow> string \<Rightarrow> char \<Rightarrow> pstate option" where
  "stepBrace st rep acc c =
     (if isDigit c \<or> c = CHR '','' then Some (PState st rep (InBrace (acc @ [c])))
      else if c = CHR ''}''
        then (case readCount acc of
                Some (lo, hi) \<Rightarrow>
                  (if 65535 < lo \<or> (case hi of Some h \<Rightarrow> h < lo \<or> 65535 < h | None \<Rightarrow> False)
                   then None
                   else quantify (counted lo hi) rep st)
              | None \<Rightarrow> Some (PState (addLiterals (''{'' @ acc @ ''}'') st) CanRepeat Normal))
      else stepNormal (addLiterals (''{'' @ acc) st) CanRepeat c)"

fun step :: "pstate \<Rightarrow> char \<Rightarrow> pstate option" where
  "step (PState st rep Normal) c = stepNormal st rep c"
| "step (PState st rep Escaped) c = stepEscaped st c"
| "step (PState st rep Opened) c =
     (if c = CHR ''?'' then Some (PState st NoRepeat OpenedQ) else stepNormal st NoRepeat c)"
| "step (PState st rep OpenedQ) c =
     (if c = CHR '':'' then Some (PState st NoRepeat Normal) else None)"
| "step (PState st rep (InSet ss sc)) c =
     (let sc' = scanAll (case ss of SetState neg rs pending dash pos esc lb \<Rightarrow> lb) c sc
      in if nameFound sc' then None else stepSet st ss sc' c)"
| "step (PState st rep (InBrace acc)) c = stepBrace st rep acc c"

fun readPattern :: "pstate \<Rightarrow> string \<Rightarrow> pstate option" where
  "readPattern ps [] = Some ps"
| "readPattern ps (c # cs) =
     (case step ps c of None \<Rightarrow> None | Some ps' \<Rightarrow> readPattern ps' cs)"

definition finish :: "pstate \<Rightarrow> rexp option" where
  "finish ps =
     (case ps of
        PState [f] rep Normal \<Rightarrow> Some (altOf f)
      | PState [f] rep (InBrace acc) \<Rightarrow>
          (case addLiterals (''{'' @ acc) [f] of [g] \<Rightarrow> Some (altOf g) | _ \<Rightarrow> None)
      | _ \<Rightarrow> None)"

definition compile :: "string \<Rightarrow> rexp option" where
  "compile pat =
     (case readPattern (PState [([], [])] NoRepeat Normal) pat of
        None \<Rightarrow> None
      | Some ps \<Rightarrow> finish ps)"

fun dotRegexI :: regexEngine where
  "dotRegexI (Regex pat opts) =
     (if opts = ''i'' \<or> opts = []
      then map_option (\<lambda>r. searchIn (opts = ''i'') r) (compile pat)
      else None)"

section \<open>Schema validation and the save pipeline (models/User.js)\<close>

text \<open>The schema's validators, path by path. A validator other than \<open>required\<close> is not
  run on \<open>null\<close>.\<close>

definition nameChar :: "char \<Rightarrow> bool" where
  "nameChar c = (isAlpha c \<or> isSpace c \<or> c = CHR ''-'' \<or> c = CHR 0x27)"

definition validName :: "string option \<Rightarrow> bool" where
  "validName v =
     (case v of
        None \<Rightarrow> False
      | Some s \<Rightarrow> s \<noteq> [] \<and> 2 \<le> length s \<and> length s \<le> 100 \<and> list_all nameChar s)"

definition emailLocalChar :: "char \<Rightarrow> bool" where
  "emailLocalChar c = (isAlpha c \<or> isDigit c \<or> c \<in> set ''._%+-'')"

definition emailDomainChar :: "char \<Rightarrow> bool" where
  "emailDomainChar c = (isAlpha c \<or> isDigit c \<or> c \<in> set ''.-'')"

text \<open>The pattern \<open>^[a-zA-Z0-9._%+-]+@[a-zA-Z0-9.-]+\.[a-zA-Z]{2,}$\<close>: the local part is
  the run before \<open>@\<close>; what follows ends in a dot and at least two letters, after a
  non-empty run of domain characters.\<close>

definition matchesEmail :: "string \<Rightarrow> bool" where
  "matchesEmail v =
     (let localPart = takeWhile emailLocalChar v;
          rest = dropWhile emailLocalChar v;
          domain = drop 1 rest;
          tld = takeWhile isAlpha (rev domain);
          before = dropWhile isAlpha (rev domain)
      in localPart \<noteq> [] \<and> take 1 rest = ''@''
         \<and> 2 \<le> length tld \<and> take 1 before = ''.''
         \<and> drop 1 before \<noteq> [] \<and> list_all emailDomainChar (drop 1 before))"

definition disposableDomains :: "string list" where
  "disposableDomains = [''tempmail.com'', ''throwaway.com'']"

text \<open>\<open>v.split('@')[1]\<close>: the piece between the first and the second \<open>@\<close>; without an
  \<open>@\<close> the validator throws, which fails the path.\<close>

definition notDisposable :: "string \<Rightarrow> bool" where
  "notDisposable v =
     (let rest = dropWhile (\<lambda>c. c \<noteq> CHR ''@'') v
      in if rest = [] then False
         else (let domain = takeWhile (\<lambda>c. c \<noteq> CHR ''@'') (drop 1 rest)
               in \<not> List.member disposableDomains (toLowerCase domain)))"

definition validEmail :: "string option \<Rightarrow> bool" where
  "validEmail v =
     (case v of
        None \<Rightarrow> False
      | Some s \<Rightarrow> s \<noteq> [] \<and> matchesEmail s \<and> notDisposable s)"

definition validAge :: "int option \<Rightarrow> bool" where
  "validAge v = (case v of None \<Rightarrow> True | Some a \<Rightarrow> 13 \<le> a \<and> a \<le> 120)"

definition validHobbies :: "string list \<Rightarrow> bool" where
  "validHobbies hs =
     (list_all (\<lambda>h. 2 \<le> length h \<and> length h \<le> 50) hs \<and> length hs \<le> 10)"

definition validScore :: "int \<Rightarrow> bool" where
  "validScore s = (0 \<le> s \<and> s \<le> 100)"

definition validate :: "user \<Rightarrow> string list" where
  "validate doc =
     (if validName (name doc) then [] else [''name''])
     @ (if validEmail (email doc) then [] else [''email''])
     @ (if validAge (age doc) then [] else [''age''])
     @ (if validHobbies (hobbies doc) then [] else [''hobbies''])
     @ (if validScore (profileScore doc) then [] else [''profileScore''])"

datatype saveError = ValidationError "string list" | CastError | DuplicateKey | ParallelSaveError

text \<open>
  Identifiers are ObjectIds written as 24 hexadecimal digits; the driver casts a string
  to an ObjectId before comparing, so two strings name the same identifier when they
  agree up to letter case.
\<close>

definition sameId :: "string \<Rightarrow> string \<Rightarrow> bool" where
  "sameId a b = (toLowerCase a = toLowerCase b)"

text \<open>
  A \<open>save()\<close> issued on a document while a save of that document is in progress is
  rejected by the driver with a \<open>ParallelSaveError\<close>. That is the fate of the
  \<open>this.save()\<close> in which \<open>updateProfileScore\<close> ends when the \<open>pre('save')\<close> hook
  calls it.
\<close>

definition nestedSave :: "user \<Rightarrow> saveError + user" where
  "nestedSave doc = Inl ParallelSaveError"

text \<open>
  The \<open>pre('save')\<close> hook: it awaits \<open>updateProfileScore\<close>, whose promise is the nested
  save, and then lower-cases the e-mail. When the awaited promise rejects the hook
  throws, and the save in progress fails with that error.
\<close>

definition preSave :: "user \<Rightarrow> saveError + user" where
  "preSave this =
     (case (case updateProfileScore this of
              SaveCall d \<Rightarrow> nestedSave d
            | Resolved d \<Rightarrow> Inr d) of
        Inl err \<Rightarrow> Inl err
      | Inr this \<Rightarrow>
          Inr (if truthyStr (email this)
               then this\<lparr>email := map_option toLowerCase (email this)\<rparr>
               else this))"

text \<open>
  \<open>doc.save()\<close> on the collection \<open>db\<close> (the stored documents, in insertion order):
  validation first (with the paths whose value could not be cast), then the hook, then
  the write, which the unique index on \<open>email\<close> refuses when another document holds
  the same e-mail.
\<close>

definition emailTaken :: "user list \<Rightarrow> string \<Rightarrow> string option \<Rightarrow> bool" where
  "emailTaken db oid e = list_ex (\<lambda>other. \<not> sameId (uid other) oid \<and> email other = e) db"

definition store_doc :: "user list \<Rightarrow> user \<Rightarrow> user list" where
  "store_doc db d =
     (if list_ex (\<lambda>other. sameId (uid other) (uid d)) db
      then map (\<lambda>other. if sameId (uid other) (uid d) then d else other) db
      else db @ [d])"

definition save :: "user list \<Rightarrow> user \<Rightarrow> string list \<Rightarrow> saveError + (user \<times> user list)" where
  "save db doc castErrors =
     (let errors = castErrors @ validate doc
      in if errors \<noteq> [] then Inl (ValidationError errors)
         else (case preSave doc of
                 Inl err \<Rightarrow> Inl err
               | Inr d \<Rightarrow>
                   (if emailTaken db (uid d) (email d) then Inl DuplicateKey
                    else Inr (d, store_doc db d))))"

text \<open>Running what an instance method returned: a \<open>SaveCall\<close> goes through \<open>save\<close>.\<close>

fun settle :: "user list \<Rightarrow> user promise \<Rightarrow> saveError + (user \<times> user list)" where
  "settle db (SaveCall d) = save db d []"
| "settle db (Resolved d) = Inr (d, db)"

section \<open>POST /api/users (createUser)\<close>

text \<open>A JSON value that may stand for an age: a number (an integer here) or a string.
  \<open>parseInt\<close> of a number reads its decimal string back (magnitudes below \<open>10^21\<close>).\<close>

datatype jsval = JNum int | JStr string

fun truthyVal :: "jsval option \<Rightarrow> bool" where
  "truthyVal None = False"
| "truthyVal (Some (JNum n)) = (n \<noteq> 0)"
| "truthyVal (Some (JStr s)) = (s \<noteq> [])"

fun parseIntVal :: "jsval \<Rightarrow> jsnum" where
  "parseIntVal (JNum n) = Num n"
| "parseIntVal (JStr s) = parseInt s"

text \<open>The schema's cast of a number: \<open>NaN\<close> and the infinities are refused.\<close>

fun castNumber :: "jsnum \<Rightarrow> int option" where
  "castNumber (Num n) = Some n"
| "castNumber NegZero = Some 0"
| "castNumber _ = None"

record createBody =
  b_name :: "string option"
  b_email :: "string option"
  b_age :: "jsval option"
  b_hobbies :: "string list option"

record userData =
  d_name :: string
  d_email :: string
  d_age :: "jsnum option"
  d_hobbies :: "string list"

text \<open>\<open>new User(userData)\<close>: the schema's setters (\<open>trim\<close>, \<open>lowercase\<close>) and defaults;
  \<open>oid\<close> is the identifier the driver generates. The second component lists the paths
  that failed to cast.\<close>

definition newUser :: "string \<Rightarrow> userData \<Rightarrow> user \<times> string list" where
  "newUser oid d =
     (let castAge = map_option castNumber (d_age d)
      in (\<lparr>uid = oid,
           name = Some (trim (d_name d)),
           email = Some (trim (toLowerCase (d_email d))),
           age = (case castAge of Some (Some n) \<Rightarrow> Some n | _ \<Rightarrow> None),
           hobbies = map trim (d_hobbies d),
           isActive = True,
           profileScore = 0\<rparr>,
          (if castAge = Some None then [''age''] else [])))"

text \<open>\<open>User.findOne({ email: e })\<close>: the driver casts the value of the filter with the
  schema's setters (\<open>lowercase\<close>, \<open>trim\<close>) before it compares.\<close>

definition findOneByEmail :: "user list \<Rightarrow> string \<Rightarrow> user option" where
  "findOneByEmail db e = List.find (\<lambda>u. email u = Some (trim (toLowerCase e))) db"

text \<open>The \<open>userData\<close> object the handler prepares from the body.\<close>

definition prepareUserData :: "createBody \<Rightarrow> userData" where
  "prepareUserData body =
     \<lparr>d_name = trim (case b_name body of Some s \<Rightarrow> s | None \<Rightarrow> []),
      d_email = trim (toLowerCase (case b_email body of Some s \<Rightarrow> s | None \<Rightarrow> [])),
      d_age = (if truthyVal (b_age body) then map_option parseIntVal (b_age body) else None),
      d_hobbies = (case b_hobbies body of Some hs \<Rightarrow> map trim hs | None \<Rightarrow> [])\<rparr>"

definition createUser ::
  "user list \<Rightarrow> string \<Rightarrow> createBody \<Rightarrow> user response \<times> user list" where
  "createUser db oid body =
     (if \<not> truthyStr (b_name body) \<or> \<not> truthyStr (b_email body)
      then (reply 400 False ''Name and email are required fields'' None, db)
      else (case findOneByEmail db
                   (toLowerCase (case b_email body of Some s \<Rightarrow> s | None \<Rightarrow> [])) of
              Some existingUser \<Rightarrow>
                (reply 409 False ''User with this email already exists'' None, db)
            | None \<Rightarrow>
                (let created = newUser oid (prepareUserData body)
                 in case save db (fst created) (snd created) of
                      Inl (ValidationError errors) \<Rightarrow>
                        (reply 400 False ''Validation failed'' None, db)
                    | Inl DuplicateKey \<Rightarrow>
                        (reply 409 False ''Duplicate key error'' None, db)
                    | Inl CastError \<Rightarrow>
                        (reply 500 False ''Failed to create user'' None, db)
                    | Inl ParallelSaveError \<Rightarrow>
                        (reply 500 False ''Failed to create user'' None, db)
                    | Inr (savedUser, db') \<Rightarrow>
                        (reply 201 True ''User created successfully'' (Some savedUser),
                         db'))))"

section \<open>PUT /api/users/:id (updateUser)\<close>

text \<open>The request body: a key that is absent is \<open>None\<close>. Keys outside the schema are
  dropped by the driver.\<close>

record updateBody =
  u_name :: "string option"
  u_email :: "string option"
  u_age :: "jsval option"
  u_hobbies :: "string list option"
  u_isActive :: "bool option"
  u_profileScore :: "int option"

definition isHexDigit :: "char \<Rightarrow> bool" where
  "isHexDigit c = (digitVal c < 16)"

definition isObjectId :: "string \<Rightarrow> bool" where
  "isObjectId ident = (length ident = 24 \<and> list_all isHexDigit ident)"

text \<open>The value the handler leaves in \<open>updateData.age\<close>: a truthy value goes through
  \<open>parseInt\<close>; \<open>0\<close> stays; the empty string is cast to \<open>null\<close> by the schema.\<close>

fun updateAge :: "jsval \<Rightarrow> jsnum option" where
  "updateAge (JNum n) = Some (Num n)"
| "updateAge (JStr s) = (if s = [] then None else Some (parseInt s))"

text \<open>
  \<open>User.findByIdAndUpdate(id, updateData, {new: true, runValidators: true})\<close>: the
  update is cast, the validators of the paths it sets are run, and the document with
  that identifier, if there is one, gets the new values. No \<open>save\<close> is involved, so the
  \<open>pre('save')\<close> hook does not run. A value that cannot be cast makes the call throw a
  \<open>CastError\<close>, which the handler answers with its general failure.
\<close>

definition applyUpdate :: "updateBody \<Rightarrow> user \<Rightarrow> user" where
  "applyUpdate upd doc =
     (let doc = (case u_name upd of Some n \<Rightarrow> doc\<lparr>name := Some (trim n)\<rparr> | None \<Rightarrow> doc);
          doc = (case u_email upd of
                   Some e \<Rightarrow> doc\<lparr>email := Some (trim (toLowerCase e))\<rparr> | None \<Rightarrow> doc);
          doc = (case u_age upd of
                   Some a \<Rightarrow> doc\<lparr>age := (case updateAge a of
                                            Some n \<Rightarrow> castNumber n | None \<Rightarrow> None)\<rparr>
                 | None \<Rightarrow> doc);
          doc = (case u_hobbies upd of Some hs \<Rightarrow> doc\<lparr>hobbies := map trim hs\<rparr> | None \<Rightarrow> doc);
          doc = (case u_isActive upd of Some b \<Rightarrow> doc\<lparr>isActive := b\<rparr> | None \<Rightarrow> doc);
          doc = (case u_profileScore upd of Some s \<Rightarrow> doc\<lparr>profileScore := s\<rparr> | None \<Rightarrow> doc)
      in doc)"

definition updateErrors :: "updateBody \<Rightarrow> string list" where
  "updateErrors upd =
     (case u_name upd of
        Some n \<Rightarrow> (if validName (Some (trim n)) then [] else [''name'']) | None \<Rightarrow> [])
     @ (case u_email upd of
          Some e \<Rightarrow> (if validEmail (Some (trim (toLowerCase e))) then [] else [''email''])
        | None \<Rightarrow> [])
     @ (case u_age upd of
          Some a \<Rightarrow> (if validAge (case updateAge a of Some n \<Rightarrow> castNumber n | None \<Rightarrow> None)
                     then [] else [''age''])
        | None \<Rightarrow> [])
     @ (case u_hobbies upd of
          Some hs \<Rightarrow> (if validHobbies (map trim hs) then [] else [''hobbies'']) | None \<Rightarrow> [])
     @ (case u_profileScore upd of
          Some s \<Rightarrow> (if validScore s then [] else [''profileScore'']) | None \<Rightarrow> [])"

definition findByIdAndUpdate ::
  "user list \<Rightarrow> string \<Rightarrow> updateBody \<Rightarrow> saveError + (user option \<times> user list)" where
  "findByIdAndUpdate db ident upd =
     (if (case u_age upd of
            Some a \<Rightarrow> (case updateAge a of Some n \<Rightarrow> castNumber n = None | None \<Rightarrow> False)
          | None \<Rightarrow> False)
      then Inl CastError
      else if updateErrors upd \<noteq> [] then Inl (ValidationError (updateErrors upd))
      else (case List.find (\<lambda>u. sameId (uid u) ident) db of
              None \<Rightarrow> Inr (None, db)
            | Some doc \<Rightarrow>
                (let d = applyUpdate upd doc
                 in if emailTaken db ident (email d) then Inl DuplicateKey
                    else Inr (Some d,
                           map (\<lambda>other. if sameId (uid other) ident then d else other) db))))"

definition updateUser ::
  "user list \<Rightarrow> string \<Rightarrow> updateBody \<Rightarrow> user response \<times> user list" where
  "updateUser db ident body =
     (if \<not> isObjectId ident
      then (reply 400 False ''Invalid user ID format'' None, db)
      else if truthyStr (u_email body)
              \<and> list_ex (\<lambda>u. email u = map_option (\<lambda>e. trim (toLowerCase e)) (u_email body)
                              \<and> \<not> sameId (uid u) ident) db
      then (reply 409 False ''Email already exists for another user'' None, db)
      else (case findByIdAndUpdate db ident body of
              Inl (ValidationError errors) \<Rightarrow>
                (reply 400 False ''Validation failed during update'' None, db)
            | Inl DuplicateKey \<Rightarrow> (reply 409 False ''Duplicate key error'' None, db)
            | Inl CastError \<Rightarrow> (reply 500 False ''Failed to update user'' None, db)
            | Inl ParallelSaveError \<Rightarrow> (reply 500 False ''Failed to update user'' None, db)
            | Inr (None, db') \<Rightarrow> (reply 404 False ''User not found'' None, db)
            | Inr (Some updatedUser, db') \<Rightarrow>
                (reply 200 True ''User updated successfully'' (Some updatedUser), db')))"

section \<open>GET /api/users/stats (getUserStats): totals and profile scores\<close>

text \<open>The \<open>profileScores\<close> facet groups every document and takes the minimum and the
  maximum of \<open>profileScore\<close>; an empty collection yields no group, and the formatter's
  \<open>|| 0\<close> turns a missing (or zero) value into \<open>0\<close>.\<close>

fun groupMin :: "int list \<Rightarrow> int option" where
  "groupMin [] = None"
| "groupMin (x # xs) = (case groupMin xs of None \<Rightarrow> Some x | Some m \<Rightarrow> Some (min x m))"

fun groupMax :: "int list \<Rightarrow> int option" where
  "groupMax [] = None"
| "groupMax (x # xs) = (case groupMax xs of None \<Rightarrow> Some x | Some m \<Rightarrow> Some (max x m))"

fun orZero :: "int option \<Rightarrow> int" where
  "orZero None = 0"
| "orZero (Some n) = n"

record statsData =
  totalCount :: nat
  activeCount :: nat
  inactiveCount :: int
  minScore :: int
  maxScore :: int

definition getUserStats :: "user list \<Rightarrow> statsData response" where
  "getUserStats db =
     (let count = length db;
          active = length (filter isActive db)
      in reply 200 True ''User statistics retrieved successfully''
           (Some \<lparr>totalCount = count, activeCount = active,
                  inactiveCount = int count - int active,
                  minScore = orZero (groupMin (map profileScore db)),
                  maxScore = orZero (groupMax (map profileScore db))\<rparr>))"

section \<open>Example documents\<close>

text \<open>The user of the specification's scenarios, as stored after creation.\<close>

definition annLee :: user where
  "annLee = \<lparr>uid = ''64b7f0c2a1d3e4f5a6b7c8d9'', name = Some ''Ann Lee'',
             email = Some ''ann@example.com'', age = Some 25,
             hobbies = [''chess'', ''reading''], isActive = True, profileScore = 76\<rparr>"

definition noParams :: listParams where
  "noParams = \<lparr>p_page = None, p_limit = None, p_sortBy = None, p_order = None,
               p_name = None, p_email = None, p_minAge = None, p_maxAge = None,
               p_hobby = None, p_isActive = None\<rparr>"

text \<open>
  A driver for a query that the documents \<open>docs\<close> match, listed in the order asked for.
  It refuses a \<open>NaN\<close> or an infinity wherever a number is expected (an age bound of the
  filter, \<open>skip\<close>, \<open>limit\<close>) and a negative \<open>skip\<close>; a limit of \<open>0\<close> is no limit, and a
  negative limit counts as its absolute value. \<open>store25\<close> is that driver with 25
  matching documents.
\<close>

fun isFiniteNum :: "jsnum option \<Rightarrow> bool" where
  "isFiniteNum None = True"
| "isFiniteNum (Some (Num n)) = True"
| "isFiniteNum (Some NegZero) = True"
| "isFiniteNum (Some x) = False"

definition pagedStore :: "'u list \<Rightarrow> 'u listStore" where
  "pagedStore docs flt srt skp lmt =
     (if \<not> (case f_age flt of None \<Rightarrow> True | Some a \<Rightarrow> isFiniteNum (gte a) \<and> isFiniteNum (lte a))
      then Inl ''CastError''
      else if \<not> isFiniteNum (Some skp) \<or> \<not> isFiniteNum (Some lmt) \<or> intOf skp < 0
      then Inl ''MongoServerError''
      else Inr ((if intOf lmt = 0 then drop (nat (intOf skp)) docs
                 else take (nat \<bar>intOf lmt\<bar>) (drop (nat (intOf skp)) docs)),
                length docs))"

definition store25 :: "user listStore" where
  "store25 = pagedStore (replicate 25 annLee)"

definition emptyUpdate :: updateBody where
  "emptyUpdate = \<lparr>u_name = None, u_email = None, u_age = None, u_hobbies = None,
                  u_isActive = None, u_profileScore = None\<rparr>"

section \<open>Stored e-mails\<close>

text \<open>Every e-mail in the collection is as the schema's setters leave it, in lower case
  and trimmed: what the write paths store.\<close>

definition emailsLowercase :: "user list \<Rightarrow> bool" where
  "emailsLowercase db =
     list_all (\<lambda>u. case email u of Some e \<Rightarrow> toLowerCase e = e \<and> trim e = e | None \<Rightarrow> True) db"

text \<open>No two stored documents share an identifier or an e-mail.\<close>

definition uniqueEmails :: "user list \<Rightarrow> bool" where
  "uniqueEmails db =
     (distinct (map (\<lambda>u. toLowerCase (uid u)) db) \<and> distinct (map email db))"

section \<open>Array helpers\<close>

lemma indexOf_ge: "- 1 \<le> indexOf xs x"
  by (induction xs) (auto simp: Let_def)

lemma indexOf_absent: "(indexOf xs x = - 1) = (x \<notin> set xs)"
proof (induction xs)
  case Nil
  show ?case by simp
next
  case (Cons y ys)
  have "0 \<le> indexOf ys x \<or> indexOf ys x = - 1"
    using indexOf_ge [of ys x] by linarith
  with Cons show ?case by (auto simp: Let_def)
qed

lemma indexOf_first:
  "x \<in> set xs \<Longrightarrow>
     \<exists>pre post. xs = pre @ x # post \<and> x \<notin> set pre \<and> indexOf xs x = int (length pre)"
proof (induction xs)
  case Nil
  then show ?case by simp
next
  case (Cons y ys)
  show ?case
  proof (cases "y = x")
    case True
    then have "y # ys = [] @ x # ys \<and> x \<notin> set [] \<and> indexOf (y # ys) x = int (length ([]::'a list))"
      by simp
    then show ?thesis by blast
  next
    case False
    with Cons.prems have "x \<in> set ys" by simp
    from Cons.IH [OF this] obtain pre post
      where ys: "ys = pre @ x # post" and pre: "x \<notin> set pre"
        and ix: "indexOf ys x = int (length pre)"
      by blast
    from False ys pre ix
    have "y # ys = (y # pre) @ x # post \<and> x \<notin> set (y # pre)
        \<and> indexOf (y # ys) x = int (length (y # pre))"
      by (simp add: Let_def)
    then show ?thesis by blast
  qed
qed

lemma splice1_at: "splice1 (pre @ x # post) (int (length pre)) = pre @ post"
  by (simp add: splice1_def)

section \<open>The profile score\<close>

lemma validate_fields:
  assumes "validate u = []"
  shows "validName (name u)" and "validEmail (email u)" and "validAge (age u)"
    and "validHobbies (hobbies u)" and "validScore (profileScore u)"
  using assms by (auto simp: validate_def split: if_splits)

lemma validate_annLee: "validate annLee = []"
proof -
  have n: "validName (name annLee)" unfolding annLee_def by code_simp
  have e: "validEmail (email annLee)" unfolding annLee_def by code_simp
  have h: "validHobbies (hobbies annLee)" unfolding annLee_def by code_simp
  have a: "validAge (age annLee)" by (simp add: validAge_def annLee_def)
  have p: "validScore (profileScore annLee)" by (simp add: validScore_def annLee_def)
  show ?thesis by (simp add: validate_def n e h a p)
qed

text \<open>
  Claim C1: for every user record that passes the schema's validation, the computed
  profile score is 20 for a name of at least two characters, plus 30 for the e-mail,
  plus 20 for an age that is not null, plus three per hobby capped at 30; in particular
  a validated record with an age and exactly two hobbies scores 20+30+20+6 = 76.
\<close>

theorem computeScore_validated:
  "validate u = [] \<Longrightarrow>
     computeScore u = specScore u
     \<and> (age u \<noteq> None \<and> length (hobbies u) = 2 \<longrightarrow> computeScore u = 76)"
proof -
  assume v: "validate u = []"
  from validate_fields(1) [OF v] obtain s where s: "name u = Some s" "s \<noteq> []" "2 \<le> length s"
    by (auto simp: validName_def split: option.splits)
  from validate_fields(2) [OF v] obtain m where m: "email u = Some m" "m \<noteq> []"
    by (auto simp: validEmail_def split: option.splits)
  from validate_fields(3) [OF v] have a: "age u = None \<or> (\<exists>n. age u = Some n \<and> n \<noteq> 0)"
    by (auto simp: validAge_def split: option.splits)
  from s m a have "computeScore u = specScore u"
    by (auto simp: computeScore_def specScore_def Let_def min_def)
  moreover from s m a have "age u \<noteq> None \<and> length (hobbies u) = 2 \<longrightarrow> computeScore u = 76"
    by (auto simp: computeScore_def Let_def)
  ultimately show ?thesis by blast
qed

theorem computeScore_validated_witness:
  "validate annLee = [] \<and> computeScore annLee = specScore annLee \<and> computeScore annLee = 76"
proof -
  have "age annLee \<noteq> None \<and> length (hobbies annLee) = 2" by (simp add: annLee_def)
  with computeScore_validated [OF validate_annLee] validate_annLee show ?thesis by simp
qed

section \<open>Hobby operations\<close>

text \<open>
  Claim C8: for every user document and every hobby already present in its hobbies
  sequence, \<open>addHobby\<close> with that hobby leaves the sequence unchanged; indeed the
  document is handed back as it is, without a save.
\<close>

theorem addHobby_idempotent:
  "hobby \<in> set (hobbies u) \<Longrightarrow>
     addHobby u hobby = Resolved u \<and> hobbies (docOf (addHobby u hobby)) = hobbies u"
  by (simp add: addHobby_def includes_elem_def indexOf_absent)

theorem addHobby_idempotent_witness:
  "''chess'' \<in> set (hobbies annLee)
   \<and> addHobby annLee ''chess'' = Resolved annLee
   \<and> hobbies (docOf (addHobby annLee ''chess'')) = [''chess'', ''reading'']"
proof -
  have h: "''chess'' \<in> set (hobbies annLee)" by (simp add: annLee_def)
  from addHobby_idempotent [OF h] h show ?thesis by (simp add: annLee_def)
qed

text \<open>
  Claim C10: \<open>removeHobby\<close> with a hobby that occurs in the hobbies sequence, also more
  than once, removes the first occurrence only: the sequence splits at the first
  occurrence into \<open>pre\<close>, the hobby and \<open>post\<close>, and \<open>pre @ post\<close> is what remains, one
  occurrence fewer. With a hobby that does not occur, the document is handed back
  unchanged and no error is signalled.
\<close>

theorem removeHobby_first_occurrence:
  "(hobby \<in> set (hobbies u) \<longrightarrow>
      (\<exists>pre post. hobbies u = pre @ hobby # post \<and> hobby \<notin> set pre
         \<and> removeHobby u hobby = SaveCall (u\<lparr>hobbies := pre @ post\<rparr>)
         \<and> int (count_list (pre @ post) hobby) = int (count_list (hobbies u) hobby) - 1))
   \<and> (hobby \<notin> set (hobbies u) \<longrightarrow> removeHobby u hobby = Resolved u)"
proof (intro conjI impI)
  assume "hobby \<in> set (hobbies u)"
  from indexOf_first [OF this] obtain pre post
    where hs: "hobbies u = pre @ hobby # post" and pre: "hobby \<notin> set pre"
      and ix: "indexOf (hobbies u) hobby = int (length pre)"
    by blast
  have "removeHobby u hobby = SaveCall (u\<lparr>hobbies := pre @ post\<rparr>)"
    using ix splice1_at [of pre hobby post] hs by (simp add: removeHobby_def Let_def)
  moreover have "int (count_list (pre @ post) hobby) = int (count_list (hobbies u) hobby) - 1"
    by (simp add: hs)
  ultimately show "\<exists>pre post. hobbies u = pre @ hobby # post \<and> hobby \<notin> set pre
         \<and> removeHobby u hobby = SaveCall (u\<lparr>hobbies := pre @ post\<rparr>)
         \<and> int (count_list (pre @ post) hobby) = int (count_list (hobbies u) hobby) - 1"
    using hs pre by blast
next
  assume "hobby \<notin> set (hobbies u)"
  then have "indexOf (hobbies u) hobby = - 1" by (simp add: indexOf_absent)
  then show "removeHobby u hobby = Resolved u" by (simp add: removeHobby_def)
qed

theorem removeHobby_first_occurrence_witness:
  "removeHobby (annLee\<lparr>hobbies := [''reading'', ''chess'', ''golf'', ''chess'']\<rparr>) ''chess''
     = SaveCall (annLee\<lparr>hobbies := [''reading'', ''golf'', ''chess'']\<rparr>)
   \<and> removeHobby annLee ''golf'' = Resolved annLee"
proof -
  let ?u = "annLee\<lparr>hobbies := [''reading'', ''chess'', ''golf'', ''chess'']\<rparr>"
  have present: "''chess'' \<in> set (hobbies ?u)" by simp
  from removeHobby_first_occurrence [of "''chess''" ?u] present
  obtain pre post where split: "hobbies ?u = pre @ ''chess'' # post"
    and first: "''chess'' \<notin> set pre"
    and res: "removeHobby ?u ''chess'' = SaveCall (?u\<lparr>hobbies := pre @ post\<rparr>)"
    by blast
  from split first have "pre = [''reading'']"
    by (cases pre; cases "tl pre") (auto simp: Cons_eq_append_conv)
  with split have "post = [''golf'', ''chess'']" by simp
  with \<open>pre = [''reading'']\<close> res
  have a: "removeHobby ?u ''chess'' = SaveCall (annLee\<lparr>hobbies := [''reading'', ''golf'', ''chess'']\<rparr>)"
    by simp
  have absent: "''golf'' \<notin> set (hobbies annLee)" by (simp add: annLee_def)
  with removeHobby_first_occurrence [of "''golf''" annLee]
  have b: "removeHobby annLee ''golf'' = Resolved annLee" by blast
  from a b show ?thesis by blast
qed

section \<open>Listing users: numeric parameters and pagination\<close>

text \<open>Integers below \<open>2^53\<close> are doubles as they stand; \<open>parseInt\<close> on sample inputs, and
  on every non-empty string of decimal digits.\<close>

lemma dbl_small: "\<bar>i\<bar> < 2 ^ 53 \<Longrightarrow> dbl i = Num i"
  by (auto simp: dbl_def roundToDouble_def)

lemma parseInt_5abc: "parseInt ''5abc'' = Num 5"
  by (simp add: parseInt_def isSpace_def isRadixDigit_def digitVal_def isDigit_def isLower_def
        isUpper_def Let_def dbl_small)

lemma parseInt_abc: "parseInt ''abc'' = NaN"
  by (simp add: parseInt_def isSpace_def isRadixDigit_def digitVal_def isDigit_def isLower_def
        isUpper_def Let_def)

lemma parseInt_10: "parseInt ''10'' = Num 10"
  by (simp add: parseInt_def isSpace_def isRadixDigit_def digitVal_def isDigit_def isLower_def
        isUpper_def Let_def dbl_small)

lemma parseInt_1: "parseInt ''1'' = Num 1"
  by (simp add: parseInt_def isSpace_def isRadixDigit_def digitVal_def isDigit_def isLower_def
        isUpper_def Let_def dbl_small)

lemma parseInt_2: "parseInt ''2'' = Num 2"
  by (simp add: parseInt_def isSpace_def isRadixDigit_def digitVal_def isDigit_def isLower_def
        isUpper_def Let_def dbl_small)

lemma digit_not_space: "isDigit c \<Longrightarrow> \<not> isSpace c"
  by (auto simp: isDigit_def isSpace_def Let_def)

lemma digit_radix10: "isDigit c \<Longrightarrow> isRadixDigit 10 c"
  by (auto simp: isDigit_def isRadixDigit_def digitVal_def Let_def)

lemma digit_not_sign:
  "isDigit c \<Longrightarrow> c \<noteq> CHR ''-'' \<and> c \<noteq> CHR ''+'' \<and> c \<noteq> CHR ''x'' \<and> c \<noteq> CHR ''X''"
  by (auto simp: isDigit_def Let_def)

lemma dbl_zero: "dbl 0 = Num 0"
  by (simp add: dbl_small)

lemma parseInt_decimal:
  assumes "ds \<noteq> []" and "list_all isDigit ds"
  shows "parseInt ds = dbl (int (foldl (\<lambda>acc c. acc * 10 + digitVal c) 0 ds))"
proof -
  from assms obtain c cs where ds: "ds = c # cs" and c: "isDigit c" and cs: "list_all isDigit cs"
    by (cases ds) auto
  have sp: "dropWhile isSpace ds = ds"
    using c digit_not_space by (simp add: ds)
  have sign: "take 1 ds \<noteq> ''-''" "take 1 ds \<noteq> ''+''"
    using digit_not_sign [OF c] by (simp_all add: ds)
  have hex: "take 2 ds \<noteq> ''0x''" "take 2 ds \<noteq> ''0X''"
  proof -
    show "take 2 ds \<noteq> ''0x''"
    proof (cases cs)
      case Nil then show ?thesis by (simp add: ds)
    next
      case (Cons b bs)
      with cs have "isDigit b" by simp
      from digit_not_sign [OF this] show ?thesis by (simp add: ds Cons)
    qed
    show "take 2 ds \<noteq> ''0X''"
    proof (cases cs)
      case Nil then show ?thesis by (simp add: ds)
    next
      case (Cons b bs)
      with cs have "isDigit b" by simp
      from digit_not_sign [OF this] show ?thesis by (simp add: ds Cons)
    qed
  qed
  have all: "takeWhile (isRadixDigit 10) ds = ds"
    using assms(2) digit_radix10 by (simp add: takeWhile_eq_all_conv list_all_iff)
  show ?thesis
    using assms(1) sign hex by (simp add: parseInt_def Let_def sp all dbl_zero)
qed

lemma ceilDiv_pos:
  "1 \<le> l \<Longrightarrow> ceilDiv n (Num l) = Num \<lceil>real n / real_of_int l\<rceil>"
proof -
  assume l: "1 \<le> l"
  have c: "\<lceil>real n / real_of_int l\<rceil> = - ((- int n) div l)"
    using ceiling_divide_eq_div [of "int n" l, where ?'a = real] by simp
  from l c show ?thesis by (auto simp: Let_def)
qed

text \<open>
  Claim C4: take a list request whose page and limit \<open>parseInt\<close> reads as the integers
  \<open>p \<ge> 1\<close> and \<open>l \<ge> 1\<close> (an absent parameter counts as 1 and 10), and let the query on
  the collection, issued with the request's filter and sort, \<open>skip = (p - 1) * l\<close> and
  \<open>limit = l\<close>, return the page \<open>found\<close> and the total count \<open>count\<close> (below \<open>2^53\<close>,
  as every count of documents is). Then the answer is
  the success response carrying \<open>found\<close> and the metadata \<open>currentPage = p\<close>,
  \<open>pageSize = l\<close>, \<open>totalUsers = count\<close>, \<open>totalPages = ceil(count / l)\<close>,
  \<open>hasNextPage\<close> exactly when \<open>p < totalPages\<close> and \<open>hasPreviousPage\<close> exactly when
  \<open>p > 1\<close>.
\<close>

theorem getAllUsers_pagination:
  assumes page: "parseInt (pageParam req) = Num p" and p: "1 \<le> p"
    and limit: "parseInt (limitParam req) = Num l" and l: "1 \<le> l"
    and found: "store (buildFilter req) (sortOptions req) (js_mul (js_pred (Num p)) (Num l)) (Num l)
                  = Inr (found, count)"
    and small: "count < 2 ^ 53"
  shows "getAllUsers store req =
           reply 200 True ''Users retrieved successfully''
             (Some \<lparr>users = found,
                    pageInfo = \<lparr>currentPage = Num p, pageSize = Num l, totalUsers = count,
                                totalPages = Num \<lceil>real count / real_of_int l\<rceil>,
                                hasNextPage = (p < \<lceil>real count / real_of_int l\<rceil>),
                                hasPreviousPage = (1 < p)\<rparr>,
                    applied = filterApplied (buildFilter req),
                    details = buildFilter req\<rparr>)"
  using found ceilDiv_pos [OF l, of count]
  by (simp add: getAllUsers_def Let_def page limit paginate_def)

theorem getAllUsers_pagination_witness:
  "parseInt (pageParam (noParams\<lparr>p_page := Some ''2''\<rparr>)) = Num 2
   \<and> parseInt (limitParam (noParams\<lparr>p_page := Some ''2''\<rparr>)) = Num 10
   \<and> map_option pageInfo (payload (getAllUsers store25 (noParams\<lparr>p_page := Some ''2''\<rparr>)))
       = Some \<lparr>currentPage = Num 2, pageSize = Num 10, totalUsers = 25, totalPages = Num 3,
               hasNextPage = True, hasPreviousPage = True\<rparr>
   \<and> map_option (\<lambda>d. length (users d))
        (payload (getAllUsers store25 (noParams\<lparr>p_page := Some ''2''\<rparr>))) = Some 10"
proof -
  let ?req = "noParams\<lparr>p_page := Some ''2''\<rparr>"
  have page: "parseInt (pageParam ?req) = Num 2"
    by (simp add: pageParam_def parseInt_2)
  have limit: "parseInt (limitParam ?req) = Num 10"
    by (simp add: limitParam_def noParams_def parseInt_10)
  have skip: "js_mul (js_pred (Num 2)) (Num 10) = Num 10"
    by (simp add: js_mul_def dbl_small)
  have noage: "f_age (buildFilter ?req) = None"
    by (simp add: buildFilter_def noParams_def)
  have found: "store25 (buildFilter ?req) (sortOptions ?req) (js_mul (js_pred (Num 2)) (Num 10)) (Num 10)
                 = Inr (replicate 10 annLee, 25)"
    by (simp add: store25_def pagedStore_def js_mul_def dbl_small noage)
  from getAllUsers_pagination [where req = ?req and p = 2 and l = 10 and store = store25
         and found = "replicate 10 annLee" and count = 25] page limit found
  show ?thesis by (simp add: reply_def)
qed

text \<open>
  Claim C3, as stated, fails: the handler has no check on \<open>minAge\<close>, \<open>maxAge\<close>, \<open>page\<close>
  or \<open>limit\<close>. The limit \<open>5abc\<close> is read as 5 and the request succeeds; the minimum
  age \<open>abc\<close> becomes \<open>NaN\<close> in the filter.
\<close>

theorem getAllUsers_accepts_non_numeric_counterexample:
  "status (getAllUsers store25 (noParams\<lparr>p_limit := Some ''5abc''\<rparr>)) = 200
   \<and> success (getAllUsers store25 (noParams\<lparr>p_limit := Some ''5abc''\<rparr>))
   \<and> map_option (\<lambda>d. pageSize (pageInfo d))
        (payload (getAllUsers store25 (noParams\<lparr>p_limit := Some ''5abc''\<rparr>))) = Some (Num 5)
   \<and> f_age (buildFilter (noParams\<lparr>p_minAge := Some ''abc''\<rparr>))
        = Some \<lparr>gte = Some NaN, lte = None\<rparr>"
proof -
  have skip: "js_mul (js_pred (Num 1)) (Num 5) = Num 0"
    by (simp add: js_mul_def dbl_small)
  show ?thesis
    by (simp add: getAllUsers_def store25_def pagedStore_def noParams_def limitParam_def
          pageParam_def reply_def buildFilter_def paginate_def parseInt_5abc parseInt_abc
          parseInt_1 js_mul_def dbl_small Let_def)
qed

text \<open>
  Claim C3 (amended): the list handler never rejects a request on account of a
  non-numeric \<open>minAge\<close>, \<open>maxAge\<close>, \<open>page\<close> or \<open>limit\<close>. Each value goes through
  \<open>parseInt\<close> and is passed on as parsed: the age bounds of the filter are the parsed
  \<open>minAge\<close> and \<open>maxAge\<close>, and the query on the collection is issued with that filter,
  \<open>skip = (page - 1) * limit\<close> and \<open>limit\<close> of the parsed values. When that query returns,
  the answer is the success response (status 200) carrying the page and the count it
  returned, with \<open>currentPage\<close> and \<open>pageSize\<close> the parsed values; when it throws, the
  answer is the general failure (status 500, "Failed to retrieve users"). There is no
  other answer.
\<close>

theorem getAllUsers_numeric_params_coerced:
  "(\<forall>found count.
       store (buildFilter req) (sortOptions req)
         (js_mul (js_pred (parseInt (pageParam req))) (parseInt (limitParam req)))
         (parseInt (limitParam req)) = Inr (found, count) \<longrightarrow>
       status (getAllUsers store req) = 200 \<and> success (getAllUsers store req)
       \<and> (\<exists>d. payload (getAllUsers store req) = Some d
              \<and> users d = found
              \<and> totalUsers (pageInfo d) = count
              \<and> currentPage (pageInfo d) = parseInt (pageParam req)
              \<and> pageSize (pageInfo d) = parseInt (limitParam req)
              \<and> details d = buildFilter req))
   \<and> (\<forall>err.
       store (buildFilter req) (sortOptions req)
         (js_mul (js_pred (parseInt (pageParam req))) (parseInt (limitParam req)))
         (parseInt (limitParam req)) = Inl err \<longrightarrow>
       getAllUsers store req = reply 500 False ''Failed to retrieve users'' None)
   \<and> (status (getAllUsers store req) = 200 \<or> status (getAllUsers store req) = 500)
   \<and> (truthyStr (p_minAge req) \<longrightarrow>
        (\<exists>a. f_age (buildFilter req) = Some a \<and> gte a = map_option parseInt (p_minAge req)))
   \<and> (truthyStr (p_maxAge req) \<longrightarrow>
        (\<exists>a. f_age (buildFilter req) = Some a \<and> lte a = map_option parseInt (p_maxAge req)))"
proof (intro conjI impI allI)
  fix found count
  assume "store (buildFilter req) (sortOptions req)
         (js_mul (js_pred (parseInt (pageParam req))) (parseInt (limitParam req)))
         (parseInt (limitParam req)) = Inr (found, count)"
  then have r: "getAllUsers store req =
      reply 200 True ''Users retrieved successfully''
        (Some \<lparr>users = found,
               pageInfo = paginate (parseInt (pageParam req)) (parseInt (limitParam req)) count,
               applied = filterApplied (buildFilter req), details = buildFilter req\<rparr>)"
    by (simp add: getAllUsers_def Let_def)
  show "status (getAllUsers store req) = 200" by (simp add: r reply_def)
  show "success (getAllUsers store req)" by (simp add: r reply_def)
  show "\<exists>d. payload (getAllUsers store req) = Some d
              \<and> users d = found
              \<and> totalUsers (pageInfo d) = count
              \<and> currentPage (pageInfo d) = parseInt (pageParam req)
              \<and> pageSize (pageInfo d) = parseInt (limitParam req)
              \<and> details d = buildFilter req"
    by (simp add: r reply_def paginate_def Let_def)
next
  fix err
  assume "store (buildFilter req) (sortOptions req)
         (js_mul (js_pred (parseInt (pageParam req))) (parseInt (limitParam req)))
         (parseInt (limitParam req)) = Inl err"
  then show "getAllUsers store req = reply 500 False ''Failed to retrieve users'' None"
    by (simp add: getAllUsers_def Let_def)
next
  show "status (getAllUsers store req) = 200 \<or> status (getAllUsers store req) = 500"
    by (simp add: getAllUsers_def Let_def reply_def split: sum.splits prod.splits)
next
  assume "truthyStr (p_minAge req)"
  then show "\<exists>a. f_age (buildFilter req) = Some a \<and> gte a = map_option parseInt (p_minAge req)"
    by (simp add: buildFilter_def)
next
  assume "truthyStr (p_maxAge req)"
  then show "\<exists>a. f_age (buildFilter req) = Some a \<and> lte a = map_option parseInt (p_maxAge req)"
    by (simp add: buildFilter_def)
qed

theorem getAllUsers_numeric_params_coerced_witness:
  "status (getAllUsers store25 (noParams\<lparr>p_limit := Some ''5abc''\<rparr>)) = 200
   \<and> map_option (\<lambda>d. (length (users d), totalUsers (pageInfo d), pageSize (pageInfo d)))
        (payload (getAllUsers store25 (noParams\<lparr>p_limit := Some ''5abc''\<rparr>)))
       = Some (5, 25, Num 5)
   \<and> map_option gte (f_age (buildFilter (noParams\<lparr>p_minAge := Some ''abc''\<rparr>))) = Some (Some NaN)
   \<and> getAllUsers store25 (noParams\<lparr>p_minAge := Some ''abc''\<rparr>)
       = reply 500 False ''Failed to retrieve users'' None"
proof -
  let ?a = "noParams\<lparr>p_limit := Some ''5abc''\<rparr>"
  let ?b = "noParams\<lparr>p_minAge := Some ''abc''\<rparr>"
  have lim: "parseInt (limitParam ?a) = Num 5" "parseInt (pageParam ?a) = Num 1"
    by (simp_all add: limitParam_def pageParam_def noParams_def parseInt_5abc parseInt_1)
  have skip: "js_mul (js_pred (Num 1)) (Num 5) = Num 0"
    by (simp add: js_mul_def dbl_small)
  have "f_age (buildFilter ?a) = None" by (simp add: buildFilter_def noParams_def)
  then have ok: "store25 (buildFilter ?a) (sortOptions ?a)
         (js_mul (js_pred (parseInt (pageParam ?a))) (parseInt (limitParam ?a)))
         (parseInt (limitParam ?a)) = Inr (replicate 5 annLee, 25)"
    by (simp add: store25_def pagedStore_def lim js_mul_def dbl_small)
  from getAllUsers_numeric_params_coerced [of store25 ?a] ok lim
  have a: "status (getAllUsers store25 ?a) = 200"
    and "\<exists>d. payload (getAllUsers store25 ?a) = Some d \<and> users d = replicate 5 annLee
           \<and> totalUsers (pageInfo d) = 25 \<and> pageSize (pageInfo d) = Num 5"
    by auto
  then obtain d where d: "payload (getAllUsers store25 ?a) = Some d"
    "users d = replicate 5 annLee" "totalUsers (pageInfo d) = 25" "pageSize (pageInfo d) = Num 5"
    by blast
  have minAge: "truthyStr (p_minAge ?b)" "map_option parseInt (p_minAge ?b) = Some NaN"
    by (simp_all add: parseInt_abc)
  from getAllUsers_numeric_params_coerced [of store25 ?b] minAge
  obtain g where g: "f_age (buildFilter ?b) = Some g" "gte g = Some NaN" by metis
  then have "store25 (buildFilter ?b) (sortOptions ?b)
         (js_mul (js_pred (parseInt (pageParam ?b))) (parseInt (limitParam ?b)))
         (parseInt (limitParam ?b)) = Inl ''CastError''"
    by (simp add: store25_def pagedStore_def)
  with getAllUsers_numeric_params_coerced [of store25 ?b]
  have b: "getAllUsers store25 ?b = reply 500 False ''Failed to retrieve users'' None"
    by blast
  from a d g b show ?thesis by simp
qed

section \<open>Searching users\<close>

lemma findLimit_length: "findLimit rx db qry n = Inr found \<Longrightarrow> length found \<le> n \<and> set found \<subseteq> set db"
  by (auto simp: findLimit_def split: if_splits dest: in_set_takeD)

lemma findLimit_matches:
  "findLimit rx db qry n = Inr found \<Longrightarrow> u \<in> set found \<Longrightarrow> matchesQuery rx qry u = Some True"
  by (auto simp: findLimit_def split: if_splits dest: in_set_takeD)

lemma searchUsers_payload:
  assumes "payload (fst (searchUsers rx db req)) = Some d"
  shows "\<exists>q qry. s_q req = Some q \<and> q \<noteq> [] \<and> findLimit rx db qry 50 = Inr (results d)
          \<and> snd (searchUsers rx db req) = [Find qry 50]
          \<and> (s_field req = Some ''hobby'' \<longrightarrow> qry = HobbiesRx (Regex q ''i''))"
proof -
  from assms have t: "truthyStr (s_q req)"
    by (auto simp: searchUsers_def reply_def Let_def split: if_splits)
  then obtain q where q: "s_q req = Some q" "q \<noteq> []"
    by (cases "s_q req") auto
  from assms t q show ?thesis
    by (auto simp: searchUsers_def reply_def Let_def split: if_splits option.splits sum.splits)
qed

lemma searchUsers_hobby_matches:
  assumes "s_field req = Some ''hobby''" and "s_q req = Some q"
    and "payload (fst (searchUsers rx db req)) = Some d"
  shows "\<exists>m. rx (Regex q ''i'') = Some m
           \<and> (\<forall>u \<in> set (results d). \<exists>h \<in> set (hobbies u). m h)"
proof -
  from searchUsers_payload [OF assms(3)] assms(1,2)
  have f: "findLimit rx db (HobbiesRx (Regex q ''i'')) 50 = Inr (results d)" by auto
  then have "rx (Regex q ''i'') \<noteq> None"
    by (auto simp: findLimit_def split: if_splits)
  then obtain m where m: "rx (Regex q ''i'') = Some m" by blast
  have "\<forall>u \<in> set (results d). \<exists>h \<in> set (hobbies u). m h"
  proof
    fix u assume "u \<in> set (results d)"
    from findLimit_matches [OF f this] m show "\<exists>h \<in> set (hobbies u). m h"
      by (simp add: list_ex_iff)
  qed
  with m show ?thesis by blast
qed

text \<open>
  Claim C5: a search request without \<open>q\<close> is rejected (status 400), and so is one whose
  \<open>field\<close> has a value other than \<open>name\<close>, \<open>email\<close>, \<open>hobby\<close> or \<open>all\<close>; in both cases
  no call on the collection is made.
\<close>

theorem searchUsers_rejects:
  "(s_q req = None \<longrightarrow>
       searchUsers rx db req = (reply 400 False ''Search query (q) is required'' None, []))
   \<and> (\<forall>f. s_field req = Some f \<and> f \<notin> set [''name'', ''email'', ''hobby'', ''all''] \<longrightarrow>
         status (fst (searchUsers rx db req)) = 400
         \<and> \<not> success (fst (searchUsers rx db req))
         \<and> payload (fst (searchUsers rx db req)) = None
         \<and> snd (searchUsers rx db req) = []
         \<and> (truthyStr (s_q req) \<longrightarrow>
               message (fst (searchUsers rx db req)) = ''Invalid search field''))"
  by (auto simp: searchUsers_def reply_def Let_def)

theorem searchUsers_rejects_witness:
  "searchUsers dotRegexI [annLee] \<lparr>s_q = None, s_field = Some ''hobby''\<rparr>
     = (reply 400 False ''Search query (q) is required'' None, [])
   \<and> searchUsers dotRegexI [annLee] \<lparr>s_q = Some ''chess'', s_field = Some ''age''\<rparr>
     = (reply 400 False ''Invalid search field'' None, [])"
proof -
  let ?r1 = "\<lparr>s_q = None, s_field = Some ''hobby''\<rparr>"
  let ?r2 = "\<lparr>s_q = Some ''chess'', s_field = Some ''age''\<rparr>"
  have a: "searchUsers dotRegexI [annLee] ?r1
     = (reply 400 False ''Search query (q) is required'' None, [])"
    using searchUsers_rejects [of ?r1 dotRegexI "[annLee]"] by simp
  have "s_field ?r2 = Some ''age'' \<and> ''age'' \<notin> set [''name'', ''email'', ''hobby'', ''all'']"
    by simp
  with searchUsers_rejects [of ?r2 dotRegexI "[annLee]"]
  have "status (fst (searchUsers dotRegexI [annLee] ?r2)) = 400
         \<and> \<not> success (fst (searchUsers dotRegexI [annLee] ?r2))
         \<and> payload (fst (searchUsers dotRegexI [annLee] ?r2)) = None
         \<and> snd (searchUsers dotRegexI [annLee] ?r2) = []
         \<and> message (fst (searchUsers dotRegexI [annLee] ?r2)) = ''Invalid search field''"
    by simp
  then have b: "searchUsers dotRegexI [annLee] ?r2 = (reply 400 False ''Invalid search field'' None, [])"
    by (cases "searchUsers dotRegexI [annLee] ?r2"; cases "fst (searchUsers dotRegexI [annLee] ?r2)")
       (simp add: reply_def)
  from a b show ?thesis by blast
qed

text \<open>
  Claim C6, as stated, fails: \<open>q\<close> is handed to the database as a regular expression,
  not as a substring. The query \<open>c.ess\<close> on the field \<open>hobby\<close> returns Ann Lee, whose
  hobbies \<open>chess\<close> and \<open>reading\<close> do not contain \<open>c.ess\<close>.
\<close>

theorem searchUsers_regex_counterexample:
  "map_option results
     (payload (fst (searchUsers dotRegexI [annLee] \<lparr>s_q = Some ''c.ess'', s_field = Some ''hobby''\<rparr>)))
     = Some [annLee]
   \<and> \<not> list_ex (\<lambda>h. containsCI h ''c.ess'') (hobbies annLee)"
  by code_simp


text \<open>
  Claim C6 (amended): a successful search returns at most 50 users, all of them users
  of the collection, whatever the field; with \<open>field=hobby\<close> the database accepted \<open>q\<close>
  as a regular expression under the option \<open>i\<close>, and every user returned has a hobby
  that this regular expression matches. The statement holds for every
  regular-expression engine \<open>rx\<close>.
\<close>

theorem searchUsers_regex_and_cap:
  "(\<forall>d. payload (fst (searchUsers rx db req)) = Some d \<longrightarrow>
        length (results d) \<le> 50 \<and> set (results d) \<subseteq> set db)
   \<and> (\<forall>d q. s_field req = Some ''hobby'' \<and> s_q req = Some q
            \<and> payload (fst (searchUsers rx db req)) = Some d \<longrightarrow>
          (\<exists>m. rx (Regex q ''i'') = Some m
             \<and> (\<forall>u \<in> set (results d). \<exists>h \<in> set (hobbies u). m h)))"
proof -
  have cap: "length (results d) \<le> 50 \<and> set (results d) \<subseteq> set db"
    if "payload (fst (searchUsers rx db req)) = Some d" for d
  proof -
    from searchUsers_payload [OF that] obtain q qry
      where "findLimit rx db qry 50 = Inr (results d)" by blast
    from findLimit_length [OF this] show ?thesis .
  qed
  from cap searchUsers_hobby_matches [of req _ rx db] show ?thesis by blast
qed

theorem searchUsers_regex_and_cap_witness:
  "payload (fst (searchUsers dotRegexI [annLee]
                   \<lparr>s_q = Some ''CHESS'', s_field = Some ''hobby''\<rparr>))
     = Some \<lparr>results = [annLee], query = ''CHESS'', field = ''hobby''\<rparr>
   \<and> length [annLee] \<le> 50
   \<and> (\<exists>m. dotRegexI (Regex ''CHESS'' ''i'') = Some m \<and> list_ex m (hobbies annLee))"
proof -
  let ?req = "\<lparr>s_q = Some ''CHESS'', s_field = Some ''hobby''\<rparr>"
  let ?d = "\<lparr>results = [annLee], query = ''CHESS'', field = ''hobby''\<rparr>"
  have "findLimit dotRegexI [annLee] (HobbiesRx (Regex ''CHESS'' ''i'')) 50 = Inr [annLee]"
    by code_simp
  then have p: "payload (fst (searchUsers dotRegexI [annLee] ?req)) = Some ?d"
    by (simp add: searchUsers_def reply_def Let_def)
  have h: "s_field ?req = Some ''hobby'' \<and> s_q ?req = Some ''CHESS''
      \<and> payload (fst (searchUsers dotRegexI [annLee] ?req)) = Some ?d"
    using p by simp
  from searchUsers_regex_and_cap [of dotRegexI "[annLee]" ?req] p h
  have "length (results ?d) \<le> 50"
    and "\<exists>m. dotRegexI (Regex ''CHESS'' ''i'') = Some m
             \<and> (\<forall>u \<in> set (results ?d). \<exists>h \<in> set (hobbies u). m h)"
    by blast+
  then show ?thesis using p by (simp add: list_ex_iff)
qed

section \<open>Creating users: e-mail conflicts\<close>

lemma hasLowerCase_lower: "hasLowerCase c \<Longrightarrow> \<not> hasLowerCase (char_of ((of_char c :: nat) + 32))"
  by (auto simp: hasLowerCase_def Let_def)

lemma lowerChar_idem: "lowerChar (lowerChar c) = lowerChar c"
  using hasLowerCase_lower [of c] by (auto simp: lowerChar_def)

lemma toLowerCase_idem: "toLowerCase (toLowerCase s) = toLowerCase s"
  by (simp add: toLowerCase_def lowerChar_idem)

lemma toLowerCase_Nil: "(toLowerCase s = []) = (s = [])"
  by (simp add: toLowerCase_def)

lemma lower_part: "list_all (\<lambda>c. lowerChar c = c) s \<Longrightarrow> list_all (\<lambda>c. lowerChar c = c) (trim s)"
proof -
  assume a: "list_all (\<lambda>c. lowerChar c = c) s"
  have "set (trim s) \<subseteq> set s"
    using set_dropWhileD [of _ isSpace "rev (dropWhile isSpace s)"] set_dropWhileD [of _ isSpace s]
    by (auto simp: trim_def)
  with a show ?thesis by (auto simp: list_all_iff)
qed

lemma lower_fix: "(toLowerCase s = s) = list_all (\<lambda>c. lowerChar c = c) s"
  by (induction s) (auto simp: toLowerCase_def)

lemma trim_lower: "toLowerCase (trim (toLowerCase s)) = trim (toLowerCase s)"
proof -
  have "list_all (\<lambda>c. lowerChar c = c) (toLowerCase s)"
    using toLowerCase_idem [of s] by (simp add: lower_fix)
  from lower_part [OF this] show ?thesis by (simp add: lower_fix)
qed

lemma trim_prefix: "\<exists>ys. t = rev (dropWhile P (rev t)) @ ys"
proof -
  have "rev (takeWhile P (rev t) @ dropWhile P (rev t)) = t"
    by (simp only: takeWhile_dropWhile_id rev_rev_ident)
  then have "rev (dropWhile P (rev t)) @ rev (takeWhile P (rev t)) = t"
    by (simp only: rev_append)
  then show ?thesis by metis
qed

lemma dropWhile_fix: "xs = [] \<or> \<not> P (hd xs) \<Longrightarrow> dropWhile P xs = xs"
  by (cases xs) auto

lemma trim_idem: "trim (trim s) = trim s"
proof -
  let ?t = "dropWhile isSpace s"
  let ?r = "rev (dropWhile isSpace (rev ?t))"
  have hd_t: "?t = [] \<or> \<not> isSpace (hd ?t)"
    using hd_dropWhile [of isSpace s] by blast
  obtain ys where ys: "?t = ?r @ ys" using trim_prefix [of ?t isSpace] by blast
  have "?r = [] \<or> \<not> isSpace (hd ?r)"
  proof (cases "?r = []")
    case True then show ?thesis by simp
  next
    case False
    with ys have "hd ?t = hd ?r" by (metis hd_append2)
    moreover from False ys have "?t \<noteq> []" by (metis Nil_is_append_conv)
    ultimately show ?thesis using hd_t by metis
  qed
  then have a: "dropWhile isSpace ?r = ?r" by (rule dropWhile_fix)
  have "dropWhile isSpace (rev ?r) = rev ?r"
    by simp
  with a show ?thesis by (simp add: trim_def)
qed

lemma find_email:
  "u \<in> set db \<Longrightarrow> email u = Some (trim (toLowerCase e)) \<Longrightarrow> findOneByEmail db e \<noteq> None"
  by (auto simp: findOneByEmail_def find_None_iff)

text \<open>
  Claim C7: e-mail uniqueness ignores letter case. When the stored e-mails are in lower
  case and trimmed (as the schema's setters leave them on every write path), creating a
  user, with a name, whose e-mail differs from the stored e-mail of an existing user
  only in letter case is answered with the conflict status 409, and the collection is
  unchanged.
\<close>

theorem createUser_case_insensitive_conflict:
  assumes lower: "emailsLowercase db"
    and existing: "existing \<in> set db" "email existing = Some stored" "stored \<noteq> []"
    and body: "b_email body = Some e" "toLowerCase e = toLowerCase stored"
    and nm: "truthyStr (b_name body)"
  shows "createUser db oid body
           = (reply 409 False ''User with this email already exists'' None, db)"
proof -
  from lower existing have kept: "toLowerCase stored = stored" "trim stored = stored"
    by (auto simp: emailsLowercase_def list_all_iff split: option.splits)
  with body have le: "toLowerCase e = stored" by simp
  with existing have "e \<noteq> []" by (auto simp: toLowerCase_def)
  with body have em: "truthyStr (b_email body)" by simp
  from le kept have "email existing = Some (trim (toLowerCase (toLowerCase e)))"
    by (simp add: existing(2))
  from find_email [OF existing(1) this]
  obtain x where "findOneByEmail db (toLowerCase e) = Some x" by auto
  with nm em body show ?thesis
    by (simp add: createUser_def Let_def)
qed

theorem createUser_case_insensitive_conflict_witness:
  "emailsLowercase [annLee] \<and> annLee \<in> set [annLee]
   \<and> email annLee = Some ''ann@example.com''
   \<and> toLowerCase ''ANN@EXAMPLE.COM'' = toLowerCase ''ann@example.com''
   \<and> createUser [annLee] ''64b7f0c2a1d3e4f5a6b7c8da''
        \<lparr>b_name = Some ''Ann Lee'', b_email = Some ''ANN@EXAMPLE.COM'', b_age = None,
         b_hobbies = None\<rparr>
       = (reply 409 False ''User with this email already exists'' None, [annLee])"
proof -
  let ?body = "\<lparr>b_name = Some ''Ann Lee'', b_email = Some ''ANN@EXAMPLE.COM'', b_age = None,
         b_hobbies = None\<rparr>"
  have l: "emailsLowercase [annLee]"
    by code_simp
  have m: "annLee \<in> set [annLee]" by simp
  have s: "email annLee = Some ''ann@example.com''" by (simp add: annLee_def)
  have c: "toLowerCase ''ANN@EXAMPLE.COM'' = toLowerCase ''ann@example.com''"
    by code_simp
  have b: "b_email ?body = Some ''ANN@EXAMPLE.COM''" and n: "truthyStr (b_name ?body)"
    by simp_all
  from createUser_case_insensitive_conflict [OF l m s _ b c n] l m s c
  show ?thesis by simp
qed

section \<open>The stored score\<close>

text \<open>The \<open>pre('save')\<close> hook sets the score of the document's fields and then fails in
  the nested save, so no \<open>save\<close> completes: \<open>createUser\<close> stores nothing and never
  answers 201, and a hobby method resolves only when it left the document alone.\<close>

lemma preSave_rejects: "preSave doc = Inl ParallelSaveError"
  by (simp add: preSave_def updateProfileScore_def nestedSave_def)

lemma save_fails: "save db doc errs \<noteq> Inr x"
  by (simp add: save_def Let_def preSave_rejects)

lemma createUser_stores_nothing:
  "snd (createUser db oid body) = db \<and> status (fst (createUser db oid body)) \<noteq> 201"
proof (cases "save db (fst (newUser oid (prepareUserData body)))
                (snd (newUser oid (prepareUserData body)))")
  case (Inl err)
  then show ?thesis
    by (cases err) (simp_all add: createUser_def Let_def reply_def split: option.splits)
next
  case (Inr x)
  with save_fails show ?thesis by blast
qed

lemma settle_addHobby:
  assumes "settle db (addHobby u hobby) = Inr (d, db')"
  shows "(hobby \<in> set (hobbies u) \<or> 10 \<le> length (hobbies u)) \<and> d = u \<and> db' = db"
proof (cases "addHobby u hobby")
  case (SaveCall doc)
  with assms save_fails show ?thesis by simp
next
  case (Resolved doc)
  then have "(hobby \<in> set (hobbies u) \<or> 10 \<le> length (hobbies u)) \<and> doc = u"
    by (auto simp: addHobby_def includes_elem_def indexOf_absent split: if_splits)
  with Resolved assms show ?thesis by simp
qed

lemma settle_removeHobby:
  assumes "settle db (removeHobby u hobby) = Inr (d, db')"
  shows "hobby \<notin> set (hobbies u) \<and> d = u \<and> db' = db"
proof (cases "removeHobby u hobby")
  case (SaveCall doc)
  with assms save_fails show ?thesis by simp
next
  case (Resolved doc)
  have "- 1 \<le> indexOf (hobbies u) hobby" by (rule indexOf_ge)
  with Resolved have "indexOf (hobbies u) hobby = - 1 \<and> doc = u"
    by (auto simp: removeHobby_def Let_def split: if_splits)
  with Resolved assms show ?thesis by (simp add: indexOf_absent)
qed

text \<open>A document that passes validation scores at least 50: it has a name of two
  characters or more and an e-mail.\<close>

lemma validate_score_ge_50: "validate doc = [] \<Longrightarrow> 50 \<le> computeScore doc"
proof -
  assume v: "validate doc = []"
  then have n: "validName (name doc)" and e: "validEmail (email doc)"
    by (auto simp: validate_def split: if_splits)
  from n obtain s where s: "name doc = Some s" "s \<noteq> []" "2 \<le> length s"
    by (auto simp: validName_def split: option.splits)
  from e obtain m where m: "email doc = Some m" "m \<noteq> []"
    by (auto simp: validEmail_def split: option.splits)
  have "0 \<le> min (int (length (hobbies doc)) * 3) 30" by simp
  with s m show ?thesis
    by (simp add: computeScore_def Let_def)
qed

lemma isObjectId_ann: "isObjectId (uid annLee)"
proof -
  have "isObjectId ''64b7f0c2a1d3e4f5a6b7c8d9''" by code_simp
  then show ?thesis by (simp add: annLee_def)
qed

lemma validate_ann: "validate (annLee\<lparr>profileScore := s\<rparr>) = (if validScore s then [] else [''profileScore''])"
proof -
  have n: "validName (name annLee)" unfolding annLee_def by code_simp
  have e: "validEmail (email annLee)" unfolding annLee_def by code_simp
  have h: "validHobbies (hobbies annLee)" unfolding annLee_def by code_simp
  have a: "validAge (age annLee)" by (simp add: validAge_def annLee_def)
  show ?thesis by (simp add: validate_def n e h a)
qed

text \<open>
  Claim C2 on the update path: \<open>updateUser\<close> writes through \<open>findByIdAndUpdate\<close>, which
  does not run the \<open>pre('save')\<close> hook. Emptying Ann Lee's hobbies succeeds and leaves
  the stored \<open>profileScore\<close> at 76, while the score of the stored fields is 70.
\<close>

theorem updateUser_leaves_score_stale:
  "updateUser [annLee] (uid annLee) (emptyUpdate\<lparr>u_hobbies := Some []\<rparr>)
     = (reply 200 True ''User updated successfully'' (Some (annLee\<lparr>hobbies := []\<rparr>)),
        [annLee\<lparr>hobbies := []\<rparr>])
   \<and> profileScore (annLee\<lparr>hobbies := []\<rparr>) = 76
   \<and> computeScore (annLee\<lparr>hobbies := []\<rparr>) = 70"
proof -
  have "findByIdAndUpdate [annLee] (uid annLee) (emptyUpdate\<lparr>u_hobbies := Some []\<rparr>)
          = Inr (Some (annLee\<lparr>hobbies := []\<rparr>), [annLee\<lparr>hobbies := []\<rparr>])"
    by (simp add: findByIdAndUpdate_def emptyUpdate_def updateErrors_def validHobbies_def
          applyUpdate_def Let_def emailTaken_def sameId_def)
  then have "updateUser [annLee] (uid annLee) (emptyUpdate\<lparr>u_hobbies := Some []\<rparr>)
     = (reply 200 True ''User updated successfully'' (Some (annLee\<lparr>hobbies := []\<rparr>)),
        [annLee\<lparr>hobbies := []\<rparr>])"
    using isObjectId_ann by (simp add: updateUser_def emptyUpdate_def)
  moreover have "profileScore (annLee\<lparr>hobbies := []\<rparr>) = 76"
    by (simp add: annLee_def)
  moreover have "computeScore (annLee\<lparr>hobbies := []\<rparr>) = 70"
    by (simp add: annLee_def computeScore_def)
  ultimately show ?thesis by blast
qed

text \<open>
  Claim C9 on the update path: the same update path stores a \<open>profileScore\<close> the
  caller supplies. After setting Ann Lee's score to 0 the statistics of the non-empty
  collection report \<open>minScore = 0\<close>, although the stored document passes validation.
\<close>

theorem stats_minScore_after_update:
  "updateUser [annLee] (uid annLee) (emptyUpdate\<lparr>u_profileScore := Some 0\<rparr>)
     = (reply 200 True ''User updated successfully'' (Some (annLee\<lparr>profileScore := 0\<rparr>)),
        [annLee\<lparr>profileScore := 0\<rparr>])
   \<and> map_option minScore (payload (getUserStats [annLee\<lparr>profileScore := 0\<rparr>])) = Some 0
   \<and> validate (annLee\<lparr>profileScore := 0\<rparr>) = []"
proof -
  have "findByIdAndUpdate [annLee] (uid annLee) (emptyUpdate\<lparr>u_profileScore := Some 0\<rparr>)
          = Inr (Some (annLee\<lparr>profileScore := 0\<rparr>), [annLee\<lparr>profileScore := 0\<rparr>])"
    by (simp add: findByIdAndUpdate_def emptyUpdate_def updateErrors_def validScore_def
          applyUpdate_def Let_def emailTaken_def sameId_def)
  then have "updateUser [annLee] (uid annLee) (emptyUpdate\<lparr>u_profileScore := Some 0\<rparr>)
     = (reply 200 True ''User updated successfully'' (Some (annLee\<lparr>profileScore := 0\<rparr>)),
        [annLee\<lparr>profileScore := 0\<rparr>])"
    using isObjectId_ann by (simp add: updateUser_def emptyUpdate_def)
  moreover have "map_option minScore (payload (getUserStats [annLee\<lparr>profileScore := 0\<rparr>])) = Some 0"
    by (simp add: getUserStats_def reply_def Let_def)
  moreover have "validate (annLee\<lparr>profileScore := 0\<rparr>) = []"
    by (simp add: validate_ann validScore_def)
  ultimately show ?thesis by blast
qed

section \<open>What the write paths keep\<close>

text \<open>Stored e-mails stay in lower case and trimmed through \<open>createUser\<close> (which stores
  nothing) and \<open>updateUser\<close>.\<close>

lemma createUser_db: "createUser db oid body = (r, db') \<Longrightarrow> db' = db"
  using createUser_stores_nothing [of db oid body] by simp

lemma createUser_keeps_lowercase:
  assumes "emailsLowercase db" and "createUser db oid body = (r, db')"
  shows "emailsLowercase db'"
  using createUser_db [OF assms(2)] assms(1) by simp

lemma applyUpdate_email:
  "email (applyUpdate upd doc)
     = (case u_email upd of Some e \<Rightarrow> Some (trim (toLowerCase e)) | None \<Rightarrow> email doc)"
  by (simp add: applyUpdate_def Let_def split: option.splits)

lemma applyUpdate_uid: "uid (applyUpdate upd doc) = uid doc"
  by (simp add: applyUpdate_def Let_def split: option.splits)

lemma applyUpdate_score:
  "profileScore (applyUpdate upd doc)
     = (case u_profileScore upd of Some s \<Rightarrow> s | None \<Rightarrow> profileScore doc)"
  by (simp add: applyUpdate_def Let_def split: option.splits)

lemma findByIdAndUpdate_found:
  assumes "findByIdAndUpdate db ident body = Inr (Some d, dbx)"
  shows "\<exists>doc. doc \<in> set db \<and> sameId (uid doc) ident \<and> d = applyUpdate body doc
           \<and> \<not> emailTaken db ident (email d)
           \<and> dbx = map (\<lambda>other. if sameId (uid other) ident then d else other) db"
proof -
  from assms obtain doc where f: "List.find (\<lambda>u. sameId (uid u) ident) db = Some doc"
    and d: "d = applyUpdate body doc"
    and nt: "\<not> emailTaken db ident (email d)"
    and dbx: "dbx = map (\<lambda>other. if sameId (uid other) ident then d else other) db"
    by (auto simp: findByIdAndUpdate_def Let_def split: if_splits option.splits)
  from f have "doc \<in> set db" "sameId (uid doc) ident"
    by (auto simp: find_Some_iff)
  with d nt dbx show ?thesis by blast
qed

lemma updateUser_db:
  assumes "updateUser db ident body = (r, db')"
  shows "db' = db \<and> status r \<noteq> 200 \<or>
         (\<exists>doc. doc \<in> set db \<and> sameId (uid doc) ident
            \<and> payload r = Some (applyUpdate body doc)
            \<and> \<not> emailTaken db ident (email (applyUpdate body doc))
            \<and> db' = map (\<lambda>other. if sameId (uid other) ident then applyUpdate body doc
                                   else other) db)"
proof (cases "findByIdAndUpdate db ident body")
  case (Inl e)
  with assms show ?thesis
    by (cases e) (auto simp: updateUser_def reply_def split: if_splits)
next
  case (Inr p)
  obtain res dbx where p: "p = (res, dbx)" by (cases p)
  show ?thesis
  proof (cases res)
    case None
    with Inr p assms show ?thesis by (auto simp: updateUser_def reply_def split: if_splits)
  next
    case (Some d)
    with Inr p have "findByIdAndUpdate db ident body = Inr (Some d, dbx)" by simp
    from findByIdAndUpdate_found [OF this] obtain doc
      where doc: "doc \<in> set db" "sameId (uid doc) ident" "d = applyUpdate body doc"
        "\<not> emailTaken db ident (email d)"
        "dbx = map (\<lambda>other. if sameId (uid other) ident then d else other) db"
      by blast
    have "db' = db \<and> status r \<noteq> 200 \<or> payload r = Some d \<and> db' = dbx"
      using Inr p Some assms by (auto simp: updateUser_def reply_def split: if_splits)
    with doc show ?thesis by blast
  qed
qed

lemma updateUser_keeps_lowercase:
  assumes "emailsLowercase db" and "updateUser db ident body = (r, db')"
  shows "emailsLowercase db'"
proof -
  from updateUser_db [OF assms(2)] show ?thesis
  proof
    assume "db' = db \<and> status r \<noteq> 200" with assms(1) show ?thesis by simp
  next
    assume "\<exists>doc. doc \<in> set db \<and> sameId (uid doc) ident
            \<and> payload r = Some (applyUpdate body doc)
            \<and> \<not> emailTaken db ident (email (applyUpdate body doc))
            \<and> db' = map (\<lambda>other. if sameId (uid other) ident then applyUpdate body doc
                                   else other) db"
    then obtain doc where doc: "doc \<in> set db"
      and db': "db' = map (\<lambda>other. if sameId (uid other) ident then applyUpdate body doc
                                    else other) db"
      by blast
    from assms(1) doc
    have old: "case email doc of Some e \<Rightarrow> toLowerCase e = e \<and> trim e = e | None \<Rightarrow> True"
      by (simp add: emailsLowercase_def list_all_iff)
    have "case email (applyUpdate body doc) of
            Some e \<Rightarrow> toLowerCase e = e \<and> trim e = e | None \<Rightarrow> True"
      using old by (simp add: applyUpdate_email trim_lower trim_idem split: option.splits)
    with assms(1) show ?thesis
      unfolding emailsLowercase_def db' list_all_iff by auto
  qed
qed

text \<open>Under the unique index no two stored documents share an e-mail, before and after
  every write.\<close>

lemma replace_distinct:
  assumes "distinct (map k db)" and "distinct (map email db)"
    and "\<forall>other \<in> set db. k other \<noteq> i \<longrightarrow> email other \<noteq> email d" and "k d = i"
  shows "distinct (map k (map (\<lambda>other. if k other = i then d else other) db))
       \<and> distinct (map email (map (\<lambda>other. if k other = i then d else other) db))"
  using assms(1-3)
proof (induction db)
  case Nil
  show ?case by simp
next
  case (Cons x xs)
  then have IH: "distinct (map k (map (\<lambda>other. if k other = i then d else other) xs))
       \<and> distinct (map email (map (\<lambda>other. if k other = i then d else other) xs))"
    by simp
  have keys: "map k (map (\<lambda>other. if k other = i then d else other) ys) = map k ys" for ys
    using assms(4) by (induction ys) auto
  show ?case
  proof (cases "k x = i")
    case True
    from Cons.prems(1) have nx: "k x \<notin> k ` set xs" by simp
    have "\<forall>other \<in> set xs. k other \<noteq> i"
    proof
      fix other assume "other \<in> set xs"
      then have "k other \<in> k ` set xs" by (rule imageI)
      with nx True show "k other \<noteq> i" by metis
    qed
    then have same: "map (\<lambda>other. if k other = i then d else other) xs = xs"
      by (induction xs) auto
    from \<open>\<forall>other \<in> set xs. k other \<noteq> i\<close> Cons.prems(3)
    have "email d \<notin> set (map email xs)" by auto
    with True same Cons.prems(1,2) assms(4) show ?thesis by auto
  next
    case False
    with Cons.prems(3) have ne: "email x \<noteq> email d" by simp
    from Cons.prems(2) have "email x \<notin> set (map email xs)" by simp
    with ne have "email x \<notin> set (map email (map (\<lambda>other. if k other = i then d else other) xs))"
      by (auto split: if_splits)
    moreover from Cons.prems(1) have "k x \<notin> set (map k xs)" by simp
    ultimately show ?thesis using False IH keys [of xs] by simp
  qed
qed

lemma emailTaken_iff:
  "emailTaken db i e = (\<exists>other \<in> set db. \<not> sameId (uid other) i \<and> email other = e)"
  by (simp add: emailTaken_def list_ex_iff)

lemma createUser_keeps_unique:
  assumes "uniqueEmails db" and "createUser db oid body = (r, db')"
  shows "uniqueEmails db'"
  using createUser_db [OF assms(2)] assms(1) by simp

lemma updateUser_keeps_unique:
  assumes "uniqueEmails db" and "updateUser db ident body = (r, db')"
  shows "uniqueEmails db'"
proof -
  from updateUser_db [OF assms(2)] show ?thesis
  proof
    assume "db' = db \<and> status r \<noteq> 200" with assms(1) show ?thesis by simp
  next
    assume "\<exists>doc. doc \<in> set db \<and> sameId (uid doc) ident
            \<and> payload r = Some (applyUpdate body doc)
            \<and> \<not> emailTaken db ident (email (applyUpdate body doc))
            \<and> db' = map (\<lambda>other. if sameId (uid other) ident then applyUpdate body doc
                                   else other) db"
    then obtain doc where nt: "\<not> emailTaken db ident (email (applyUpdate body doc))"
      and ident: "sameId (uid doc) ident"
      and db': "db' = map (\<lambda>other. if sameId (uid other) ident then applyUpdate body doc
                                    else other) db"
      by blast
    let ?k = "\<lambda>u. toLowerCase (uid u)"
    from nt have "\<forall>other \<in> set db. ?k other \<noteq> toLowerCase ident
                    \<longrightarrow> email other \<noteq> email (applyUpdate body doc)"
      by (auto simp: emailTaken_iff sameId_def)
    moreover from ident have "?k (applyUpdate body doc) = toLowerCase ident"
      by (simp add: applyUpdate_uid sameId_def)
    moreover from assms(1) have "distinct (map ?k db)" "distinct (map email db)"
      by (simp_all add: uniqueEmails_def)
    ultimately have "distinct (map ?k (map (\<lambda>other. if ?k other = toLowerCase ident
                                               then applyUpdate body doc else other) db))
       \<and> distinct (map email (map (\<lambda>other. if ?k other = toLowerCase ident
                                              then applyUpdate body doc else other) db))"
      using replace_distinct [of ?k db "toLowerCase ident" "applyUpdate body doc"] by blast
    then show ?thesis
      unfolding uniqueEmails_def db' sameId_def by simp
  qed
qed

text \<open>An update leaves the score as it was unless the body carries one.\<close>

lemma updateUser_score_unchanged:
  assumes "updateUser db ident body = (r, db')" and "payload r = Some u'"
    and "u_profileScore body = None"
  shows "\<exists>u \<in> set db. sameId (uid u) ident \<and> profileScore u' = profileScore u"
proof -
  from updateUser_db [OF assms(1)]
  have "payload r = None \<or>
         (\<exists>doc. doc \<in> set db \<and> sameId (uid doc) ident \<and> payload r = Some (applyUpdate body doc))"
  proof
    assume a: "db' = db \<and> status r \<noteq> 200"
    have "status r = 200 \<or> payload r = None"
      using assms(1)
      by (auto simp: updateUser_def reply_def
               split: if_splits sum.splits saveError.splits prod.splits option.splits)
    with a show ?thesis by simp
  next
    assume "\<exists>doc. doc \<in> set db \<and> sameId (uid doc) ident
            \<and> payload r = Some (applyUpdate body doc)
            \<and> \<not> emailTaken db ident (email (applyUpdate body doc))
            \<and> db' = map (\<lambda>other. if sameId (uid other) ident then applyUpdate body doc
                                   else other) db"
    then show ?thesis by blast
  qed
  with assms(2,3) show ?thesis
    by (auto simp: applyUpdate_score)
qed

end
